theory Spec2Isabelle
  imports Main "HOL-Library.Word"
begin

unbundle bit_operations_syntax

section \<open>NotebookML: metadata model, flat codec, identity and store facade\<close>

text \<open>
  A shallow embedding of \<^verbatim>\<open>src/notebookml/db.py\<close>. The pydantic classes become
  records (subclassing is record extension), exceptions become the left summand of a
  sum type, and the vector engine becomes an explicit state with a log of the calls made
  on it.

  The file calls four things that are not repository code:
  the standard library's \<^verbatim>\<open>datetime\<close> and \<^verbatim>\<open>hashlib\<close>, pydantic, and the packages
  \<^verbatim>\<open>flatdict\<close> and \<^verbatim>\<open>unflatten\<close>. The hash functions, the two dictionary packages and
  pydantic's field validation are written out below as their documentation gives them.
  What a float is, where the host's conversions between a date-time and a float raise
  and what they return (local time zone rules, rounding, the range of \<^verbatim>\<open>time_t\<close>) is not
  fixed by the program at all: it is a parameter of every definition that touches a
  timestamp (the record \<open>host\<close>), and every theorem holds for every host.
\<close>

subsection \<open>Python values\<close>

text \<open>
  A \<^verbatim>\<open>datetime\<close> object: the wall-clock fields and the \<^verbatim>\<open>tzinfo\<close>. \<open>tzinfo = None\<close>
  is a naive date-time; \<open>Some s\<close> is an aware one whose zone is the fixed offset of \<open>s\<close>
  seconds east of UTC (\<^verbatim>\<open>timezone(timedelta(seconds=s))\<close>).
\<close>

record datetime =
  year :: nat
  month :: nat
  day :: nat
  hour :: nat
  minute :: nat
  second :: nat
  microsecond :: nat
  tzinfo :: "int option"

text \<open>
  The values that travel through \<^verbatim>\<open>model_dump\<close>, the flat mapping and
  \<^verbatim>\<open>model_validate\<close>. \<open>'f\<close> is the host's type of floats. A dictionary keeps its
  insertion order, as Python's does.
\<close>

datatype 'f pyval =
    PNone
  | PBool bool
  | PInt int
  | PFloat 'f
  | PStr string
  | PDatetime datetime
  | PList "'f pyval list"
  | PDict "(string \<times> 'f pyval) list"

type_synonym 'f pydict = "(string \<times> 'f pyval) list"

datatype error =
    ValueError string
  | ValidationError
  | IndexError
  | OverflowError
  | OSError
  | PydanticSerializationError

text \<open>Sequencing of computations that may raise.\<close>

definition and_then :: "error + 'a \<Rightarrow> ('a \<Rightarrow> error + 'b) \<Rightarrow> error + 'b" where
  "and_then r f = (case r of Inl e \<Rightarrow> Inl e | Inr x \<Rightarrow> f x)"

text \<open>\<^verbatim>\<open>d[k] = v\<close> on an insertion-ordered dictionary.\<close>

fun dict_set :: "'k \<Rightarrow> 'v \<Rightarrow> ('k \<times> 'v) list \<Rightarrow> ('k \<times> 'v) list" where
  "dict_set k v [] = [(k, v)]"
| "dict_set k v ((k', v') # r) = (if k' = k then (k, v) # r else (k', v') # dict_set k v r)"

subsection \<open>The host: floats, local time, installed packages\<close>

text \<open>
  \<^item> \<open>timestamp h dt\<close> is \<^verbatim>\<open>dt.timestamp()\<close>: for a naive \<open>dt\<close> the host reads the
    fields as local time, for an aware one it subtracts the offset. \<open>None\<close> when the
    call raises (as it does for \<^verbatim>\<open>datetime(1, 1, 1)\<close>, "year 0 is out of range");
  \<^item> \<open>localtime h v\<close> gives the wall-clock fields of \<^verbatim>\<open>datetime.fromtimestamp(v)\<close>,
    or the exception the call raises (\<^verbatim>\<open>ValueError\<close>, \<^verbatim>\<open>OverflowError\<close> or \<^verbatim>\<open>OSError\<close>,
    as for a float beyond the year 9999 or beyond the platform's \<^verbatim>\<open>time_t\<close>);
  \<^item> \<open>float_repr h v\<close> is the text the JSON writer prints for the float \<open>v\<close>;
  \<^item> \<open>lax_datetime h v\<close> is what pydantic itself makes of an input for a
    \<^verbatim>\<open>datetime\<close> field that is not a \<^verbatim>\<open>datetime\<close> object (a string, an integer, ...):
    \<open>None\<close> when it rejects the input;
  \<^item> \<open>unflatten_indexed h items\<close> is what the \<^verbatim>\<open>unflatten\<close> package returns for a flat
    mapping in which some key holds a bracket, the mark of its list index syntax
    (\<^verbatim>\<open>foo[0]\<close>).
\<close>

record 'f host =
  timestamp :: "datetime \<Rightarrow> 'f option"
  localtime :: "'f \<Rightarrow> error + datetime"
  float_repr :: "'f \<Rightarrow> string"
  lax_datetime :: "'f pyval \<Rightarrow> datetime option"
  unflatten_indexed :: "(string \<times> 'f pyval) list \<Rightarrow> error + (string \<times> 'f pyval) list"

text \<open>\<^verbatim>\<open>datetime.fromtimestamp(v)\<close> with no \<^verbatim>\<open>tz\<close> argument returns a naive date-time.\<close>

definition fromtimestamp :: "'f host \<Rightarrow> 'f \<Rightarrow> error + datetime" where
  "fromtimestamp h v =
     (case localtime h v of Inl e \<Rightarrow> Inl e | Inr d \<Rightarrow> Inr (d\<lparr>tzinfo := None\<rparr>))"

subsection \<open>The metadata model (db.py, lines 106-166)\<close>

record MetaData =
  created_datetime :: datetime

record EntityMeta = MetaData +
  type :: string
  name :: "string option"
  id :: string

record SourceMeta = MetaData +
  type :: string
  ref :: "string option"
  url :: "string option"

record DataMeta = MetaData +
  type :: string
  owner :: EntityMeta
  creator :: EntityMeta
  source :: SourceMeta

record Data =
  meta :: DataMeta
  content :: string

text \<open>
  \<^verbatim>\<open>serialize_dt\<close> (line 111), \<open>None\<close> when it raises, and \<^verbatim>\<open>validate_dt\<close> (line 115).
\<close>

definition serialize_dt :: "'f host \<Rightarrow> datetime \<Rightarrow> 'f option" where
  "serialize_dt h dt = timestamp h dt"

fun validate_dt :: "'f host \<Rightarrow> 'f pyval \<Rightarrow> error + 'f pyval" where
  "validate_dt h (PFloat v) =
     (case fromtimestamp h v of Inl e \<Rightarrow> Inl e | Inr d \<Rightarrow> Inr (PDatetime d))"
| "validate_dt h v = Inr v"

subsection \<open>pydantic: field validation, construction and \<^verbatim>\<open>model_dump\<close>\<close>

text \<open>
  An exception raised inside a validator: pydantic turns a \<^verbatim>\<open>ValueError\<close> into a
  validation error of the field and lets every other exception through.
\<close>

fun raised_in_validator :: "error \<Rightarrow> error" where
  "raised_in_validator (ValueError _) = ValidationError"
| "raised_in_validator e = e"

text \<open>
  A \<^verbatim>\<open>datetime\<close> field: the \<^verbatim>\<open>mode="before"\<close> validator \<open>validate_dt\<close> runs first, then
  pydantic's own validation, which keeps a \<^verbatim>\<open>datetime\<close> object as it is.
\<close>

definition datetime_field :: "'f host \<Rightarrow> 'f pyval \<Rightarrow> error + datetime" where
  "datetime_field h v =
     (case validate_dt h v of
        Inl e \<Rightarrow> Inl (raised_in_validator e)
      | Inr (PDatetime d) \<Rightarrow> Inr d
      | Inr v' \<Rightarrow> (case lax_datetime h v' of Some d \<Rightarrow> Inr d | None \<Rightarrow> Inl ValidationError))"

text \<open>
  A field annotated \<^verbatim>\<open>str\<close> accepts a string, any string: the \<^verbatim>\<open>enum=[...]\<close> keyword of
  \<^verbatim>\<open>Field\<close> is not a constraint pydantic knows. It is copied into the JSON schema of the
  class and plays no part in validation.
\<close>

fun str_field :: "'f pyval \<Rightarrow> error + string" where
  "str_field (PStr s) = Inr s"
| "str_field _ = Inl ValidationError"

text \<open>\<^verbatim>\<open>Optional[str]\<close>.\<close>

fun optional_str_field :: "'f pyval \<Rightarrow> error + string option" where
  "optional_str_field PNone = Inr None"
| "optional_str_field (PStr s) = Inr (Some s)"
| "optional_str_field _ = Inl ValidationError"

text \<open>A required field (\<^verbatim>\<open>Field(...)\<close>) and a field with a default.\<close>

definition required :: "'f pydict \<Rightarrow> string \<Rightarrow> ('f pyval \<Rightarrow> error + 'a) \<Rightarrow> error + 'a" where
  "required d k f = (case map_of d k of None \<Rightarrow> Inl ValidationError | Some v \<Rightarrow> f v)"

definition with_default ::
    "'f pydict \<Rightarrow> string \<Rightarrow> 'a \<Rightarrow> ('f pyval \<Rightarrow> error + 'a) \<Rightarrow> error + 'a" where
  "with_default d k dflt f = (case map_of d k of None \<Rightarrow> Inr dflt | Some v \<Rightarrow> f v)"

text \<open>
  The fields of a model are validated one after the other. A validation error of one
  field does not stop the others from being validated: the errors are collected and
  raised together as one \<^verbatim>\<open>ValidationError\<close>; any other exception ends the validation
  where it is raised.
\<close>

definition collect :: "error + 'a \<Rightarrow> error + 'b \<Rightarrow> error + 'a \<times> 'b" where
  "collect r s =
     (case r of
        Inr x \<Rightarrow> (case s of Inr y \<Rightarrow> Inr (x, y) | Inl e \<Rightarrow> Inl e)
      | Inl e \<Rightarrow>
          if e = ValidationError
          then (case s of Inr y \<Rightarrow> Inl ValidationError | Inl e' \<Rightarrow> Inl e')
          else Inl e)"

text \<open>
  The constructors. \<^verbatim>\<open>EntityMeta(**d)\<close> and \<^verbatim>\<open>EntityMeta.model_validate(d)\<close> validate the
  same way; keys that name no field are ignored.
\<close>

definition EntityMeta_init :: "'f host \<Rightarrow> 'f pydict \<Rightarrow> error + EntityMeta" where
  "EntityMeta_init h d =
     (case collect (required d ''created_datetime'' (datetime_field h))
          (collect (required d ''type'' str_field)
          (collect (with_default d ''name'' (Some []) optional_str_field)
                   (required d ''id'' str_field))) of
        Inl e \<Rightarrow> Inl e
      | Inr (dt, t, n, i) \<Rightarrow>
          Inr \<lparr>created_datetime = dt, EntityMeta.type = t, name = n, id = i\<rparr>)"

definition SourceMeta_init :: "'f host \<Rightarrow> 'f pydict \<Rightarrow> error + SourceMeta" where
  "SourceMeta_init h d =
     (case collect (required d ''created_datetime'' (datetime_field h))
          (collect (required d ''type'' str_field)
          (collect (with_default d ''ref'' (Some []) optional_str_field)
                   (with_default d ''url'' (Some []) optional_str_field))) of
        Inl e \<Rightarrow> Inl e
      | Inr (dt, t, r, u) \<Rightarrow>
          Inr \<lparr>created_datetime = dt, SourceMeta.type = t, ref = r, url = u\<rparr>)"

text \<open>A field whose type is a model class, given as a dictionary.\<close>

fun EntityMeta_field :: "'f host \<Rightarrow> 'f pyval \<Rightarrow> error + EntityMeta" where
  "EntityMeta_field h (PDict d) = EntityMeta_init h d"
| "EntityMeta_field h _ = Inl ValidationError"

fun SourceMeta_field :: "'f host \<Rightarrow> 'f pyval \<Rightarrow> error + SourceMeta" where
  "SourceMeta_field h (PDict d) = SourceMeta_init h d"
| "SourceMeta_field h _ = Inl ValidationError"

definition DataMeta_init :: "'f host \<Rightarrow> 'f pydict \<Rightarrow> error + DataMeta" where
  "DataMeta_init h d =
     (case collect (required d ''created_datetime'' (datetime_field h))
          (collect (required d ''type'' str_field)
          (collect (required d ''owner'' (EntityMeta_field h))
          (collect (required d ''creator'' (EntityMeta_field h))
                   (required d ''source'' (SourceMeta_field h))))) of
        Inl e \<Rightarrow> Inl e
      | Inr (dt, t, ow, cr, so) \<Rightarrow>
          Inr \<lparr>created_datetime = dt, DataMeta.type = t, owner = ow, creator = cr,
               source = so\<rparr>)"

text \<open>
  \<^verbatim>\<open>model_dump()\<close>: the fields in declaration order, inherited fields first, the
  date-time through \<open>serialize_dt\<close>, nested models as nested dictionaries. When the
  field serializer raises, pydantic raises a \<^verbatim>\<open>PydanticSerializationError\<close> that names
  it.
\<close>

definition dump_dt :: "'f host \<Rightarrow> datetime \<Rightarrow> error + 'f pyval" where
  "dump_dt h dt =
     (case serialize_dt h dt of
        None \<Rightarrow> Inl PydanticSerializationError
      | Some v \<Rightarrow> Inr (PFloat v))"

fun optional_str :: "string option \<Rightarrow> 'f pyval" where
  "optional_str None = PNone"
| "optional_str (Some s) = PStr s"

definition EntityMeta_dump :: "'f host \<Rightarrow> EntityMeta \<Rightarrow> error + 'f pydict" where
  "EntityMeta_dump h m =
     and_then (dump_dt h (created_datetime m)) (\<lambda>dt. Inr
       [(''created_datetime'', dt),
        (''type'', PStr (EntityMeta.type m)),
        (''name'', optional_str (name m)),
        (''id'', PStr (EntityMeta.id m))])"

definition SourceMeta_dump :: "'f host \<Rightarrow> SourceMeta \<Rightarrow> error + 'f pydict" where
  "SourceMeta_dump h m =
     and_then (dump_dt h (created_datetime m)) (\<lambda>dt. Inr
       [(''created_datetime'', dt),
        (''type'', PStr (SourceMeta.type m)),
        (''ref'', optional_str (ref m)),
        (''url'', optional_str (url m))])"

definition DataMeta_dump :: "'f host \<Rightarrow> DataMeta \<Rightarrow> error + 'f pydict" where
  "DataMeta_dump h m =
     and_then (dump_dt h (created_datetime m)) (\<lambda>dt.
     and_then (EntityMeta_dump h (owner m)) (\<lambda>ow.
     and_then (EntityMeta_dump h (creator m)) (\<lambda>cr.
     and_then (SourceMeta_dump h (source m)) (\<lambda>so. Inr
       [(''created_datetime'', dt),
        (''type'', PStr (DataMeta.type m)),
        (''owner'', PDict ow),
        (''creator'', PDict cr),
        (''source'', PDict so)]))))"

subsection \<open>The flat codec: \<^verbatim>\<open>FlatDict\<close> and \<^verbatim>\<open>unflatten\<close>\<close>

text \<open>
  \<^verbatim>\<open>dict(FlatDict(d, delimiter='.'))\<close>: every nested dictionary is replaced by its own
  flattened items, their keys prefixed with the outer key and the delimiter; an empty
  nested dictionary stays as a value. (The keys of \<open>d\<close> are field names here and hold no
  delimiter; \<^verbatim>\<open>FlatDict\<close> would split a key that does.)
\<close>

fun flatten :: "'f pydict \<Rightarrow> 'f pydict" where
  "flatten [] = []"
| "flatten ((k, PDict d) # r) =
     (if d = [] then [(k, PDict [])]
      else map (\<lambda>(k', v). (k @ ''.'' @ k', v)) (flatten d)) @ flatten r"
| "flatten ((k, v) # r) = (k, v) # flatten r"

text \<open>
  \<^verbatim>\<open>unflatten\<close> reads each key as a path, its components parted by dots (a component
  may be empty), and builds the nested dictionaries along it. While it builds, the
  dictionaries it created itself (holders) are kept apart from the values it was given:
  a path may not run through a given value, nor end on a holder. The package reads a
  bracketed number in a key as a list index; what it returns for a mapping with a
  bracket in a key is the host's \<open>unflatten_indexed\<close>.
\<close>

datatype 'f node = Leaf "'f pyval" | Holder "(string \<times> 'f node) list"

text \<open>The first component of a key and the components after it.\<close>

fun split_key :: "string \<Rightarrow> string \<times> string list" where
  "split_key [] = ([], [])"
| "split_key (x # xs) =
     (case split_key xs of (w, ws) \<Rightarrow>
        if x = CHR ''.'' then ([], w # ws) else (x # w, ws))"

fun insert_path :: "string \<Rightarrow> string list \<Rightarrow> 'f pyval \<Rightarrow> (string \<times> 'f node) list
    \<Rightarrow> error + (string \<times> 'f node) list" where
  "insert_path k [] v obj =
     (case map_of obj k of
        Some (Holder _) \<Rightarrow> Inl (ValueError ''conflicting types'')
      | _ \<Rightarrow> Inr (dict_set k (Leaf v) obj))"
| "insert_path k (k' # ks) v obj =
     (case map_of obj k of
        None \<Rightarrow> and_then (insert_path k' ks v []) (\<lambda>h. Inr (dict_set k (Holder h) obj))
      | Some (Holder h) \<Rightarrow>
          and_then (insert_path k' ks v h) (\<lambda>h'. Inr (dict_set k (Holder h') obj))
      | Some (Leaf _) \<Rightarrow> Inl (ValueError ''conflicting types''))"

fun insert_items ::
    "'f pydict \<Rightarrow> (string \<times> 'f node) list \<Rightarrow> error + (string \<times> 'f node) list" where
  "insert_items [] obj = Inr obj"
| "insert_items ((k, v) # r) obj =
     (case split_key k of (k0, ks) \<Rightarrow>
        and_then (insert_path k0 ks v obj) (insert_items r))"

fun getvalue :: "'f node \<Rightarrow> 'f pyval" where
  "getvalue (Leaf v) = v"
| "getvalue (Holder kvs) = PDict (map (\<lambda>kn. (fst kn, getvalue (snd kn))) kvs)"

definition unflatten :: "'f host \<Rightarrow> 'f pydict \<Rightarrow> error + 'f pydict" where
  "unflatten h items =
     (if list_ex (\<lambda>kv. CHR ''['' \<in> set (fst kv)) items then unflatten_indexed h items
      else and_then (insert_items items [])
             (\<lambda>obj. Inr (map (\<lambda>kn. (fst kn, getvalue (snd kn))) obj)))"

text \<open>The two directions as \<^verbatim>\<open>add\<close> (line 102) and \<^verbatim>\<open>search\<close> (line 85) compose them.\<close>

definition Flatten :: "'f host \<Rightarrow> DataMeta \<Rightarrow> error + 'f pydict" where
  "Flatten h m = and_then (DataMeta_dump h m) (\<lambda>d. Inr (flatten d))"

definition Reconstruct :: "'f host \<Rightarrow> 'f pydict \<Rightarrow> error + DataMeta" where
  "Reconstruct h fm = and_then (unflatten h fm) (DataMeta_init h)"

text \<open>
  Two properties of a date-time on a host. It can be serialised when \<^verbatim>\<open>dt.timestamp()\<close>
  returns; it is read back when, moreover, \<^verbatim>\<open>datetime.fromtimestamp\<close> of the float
  returns the date-time itself.
\<close>

definition serialisable :: "'f host \<Rightarrow> DataMeta \<Rightarrow> bool" where
  "serialisable h m =
     (timestamp h (created_datetime m) \<noteq> None \<and>
      timestamp h (created_datetime (owner m)) \<noteq> None \<and>
      timestamp h (created_datetime (creator m)) \<noteq> None \<and>
      timestamp h (created_datetime (source m)) \<noteq> None)"

definition read_back :: "'f host \<Rightarrow> datetime \<Rightarrow> bool" where
  "read_back h dt =
     (case timestamp h dt of None \<Rightarrow> False | Some v \<Rightarrow> fromtimestamp h v = Inr dt)"

subsection \<open>JSON and the identifier (db.py, lines 169-179)\<close>

text \<open>
  A Python string is held as the bytes of its UTF-8 encoding, so \<^verbatim>\<open>.encode("utf-8")\<close>
  reads the characters off as bytes. The JSON writer escapes the quote, the backslash and
  the control characters and copies every other byte.
\<close>

type_synonym byte = "8 word"
type_synonym w32 = "32 word"

definition encode_utf8 :: "string \<Rightarrow> byte list" where
  "encode_utf8 s = map (\<lambda>c. of_char c) s"

definition hexdigit :: "nat \<Rightarrow> char" where
  "hexdigit n = ''0123456789abcdef'' ! (n mod 16)"

definition json_char :: "char \<Rightarrow> string" where
  "json_char c =
     (if c = CHR 0x22 then [CHR 0x5C, CHR 0x22]
      else if c = CHR 0x5C then [CHR 0x5C, CHR 0x5C]
      else if c = CHR 0x08 then [CHR 0x5C, CHR ''b'']
      else if c = CHR 0x0C then [CHR 0x5C, CHR ''f'']
      else if c = CHR 0x0A then [CHR 0x5C, CHR ''n'']
      else if c = CHR 0x0D then [CHR 0x5C, CHR ''r'']
      else if c = CHR 0x09 then [CHR 0x5C, CHR ''t'']
      else if (of_char c :: nat) < 32
        then [CHR 0x5C, CHR ''u'', CHR ''0'', CHR ''0'',
              hexdigit (of_char c div 16), hexdigit (of_char c)]
      else [c])"

definition json_str :: "string \<Rightarrow> string" where
  "json_str s = [CHR 0x22] @ concat (map json_char s) @ [CHR 0x22]"

fun json_optional_str :: "string option \<Rightarrow> string" where
  "json_optional_str None = ''null''"
| "json_optional_str (Some s) = json_str s"

text \<open>One \<^verbatim>\<open>"key":value\<close> member, and an object of members.\<close>

definition json_member :: "string \<Rightarrow> string \<Rightarrow> string" where
  "json_member k v = json_str k @ '':'' @ v"

fun json_join :: "string list \<Rightarrow> string" where
  "json_join [] = []"
| "json_join [x] = x"
| "json_join (x # y # r) = x @ '','' @ json_join (y # r)"

definition json_object :: "string list \<Rightarrow> string" where
  "json_object ms = ''{'' @ json_join ms @ ''}''"

definition json_dt :: "'f host \<Rightarrow> datetime \<Rightarrow> error + string" where
  "json_dt h dt =
     (case serialize_dt h dt of
        None \<Rightarrow> Inl PydanticSerializationError
      | Some v \<Rightarrow> Inr (float_repr h v))"

text \<open>
  \<^verbatim>\<open>model_dump_json()\<close>: the members in the order of \<^verbatim>\<open>model_dump()\<close>, without
  white space, the date-time through \<^verbatim>\<open>serialize_dt\<close> as a float, and the same
  \<^verbatim>\<open>PydanticSerializationError\<close> when that raises.
\<close>

definition MetaData_dump_json :: "'f host \<Rightarrow> MetaData \<Rightarrow> error + string" where
  "MetaData_dump_json h m =
     and_then (json_dt h (created_datetime m)) (\<lambda>dt. Inr
       (json_object [json_member ''created_datetime'' dt]))"

definition EntityMeta_dump_json :: "'f host \<Rightarrow> EntityMeta \<Rightarrow> error + string" where
  "EntityMeta_dump_json h m =
     and_then (json_dt h (created_datetime m)) (\<lambda>dt. Inr
       (json_object
         [json_member ''created_datetime'' dt,
          json_member ''type'' (json_str (EntityMeta.type m)),
          json_member ''name'' (json_optional_str (name m)),
          json_member ''id'' (json_str (EntityMeta.id m))]))"

definition SourceMeta_dump_json :: "'f host \<Rightarrow> SourceMeta \<Rightarrow> error + string" where
  "SourceMeta_dump_json h m =
     and_then (json_dt h (created_datetime m)) (\<lambda>dt. Inr
       (json_object
         [json_member ''created_datetime'' dt,
          json_member ''type'' (json_str (SourceMeta.type m)),
          json_member ''ref'' (json_optional_str (ref m)),
          json_member ''url'' (json_optional_str (url m))]))"

definition DataMeta_dump_json :: "'f host \<Rightarrow> DataMeta \<Rightarrow> error + string" where
  "DataMeta_dump_json h m =
     and_then (json_dt h (created_datetime m)) (\<lambda>dt.
     and_then (EntityMeta_dump_json h (owner m)) (\<lambda>ow.
     and_then (EntityMeta_dump_json h (creator m)) (\<lambda>cr.
     and_then (SourceMeta_dump_json h (source m)) (\<lambda>so. Inr
       (json_object
         [json_member ''created_datetime'' dt,
          json_member ''type'' (json_str (DataMeta.type m)),
          json_member ''owner'' ow,
          json_member ''creator'' cr,
          json_member ''source'' so])))))"

text \<open>
  \<^verbatim>\<open>meta_identifier\<close> takes any \<^verbatim>\<open>MetaData\<close>: an object of the base class or of one of
  its three subclasses. The method called on it is the one of its class.
\<close>

datatype AnyMeta =
    IsMetaData MetaData
  | IsEntityMeta EntityMeta
  | IsSourceMeta SourceMeta
  | IsDataMeta DataMeta

fun model_dump_json :: "'f host \<Rightarrow> AnyMeta \<Rightarrow> error + string" where
  "model_dump_json h (IsMetaData m) = MetaData_dump_json h m"
| "model_dump_json h (IsEntityMeta m) = EntityMeta_dump_json h m"
| "model_dump_json h (IsSourceMeta m) = SourceMeta_dump_json h m"
| "model_dump_json h (IsDataMeta m) = DataMeta_dump_json h m"

subsubsection \<open>\<^verbatim>\<open>hashlib.sha256\<close> and \<^verbatim>\<open>hashlib.sha1\<close> (FIPS 180-4)\<close>

definition rotr :: "nat \<Rightarrow> w32 \<Rightarrow> w32" where
  "rotr n x = drop_bit n x OR push_bit (32 - n) x"

definition rotl :: "nat \<Rightarrow> w32 \<Rightarrow> w32" where
  "rotl n x = push_bit n x OR drop_bit (32 - n) x"

text \<open>Padding: a one bit, zeros up to 56 modulo 64, the bit length in eight bytes.\<close>

definition be64 :: "64 word \<Rightarrow> byte list" where
  "be64 n = map (\<lambda>i. ucast (drop_bit (8 * i) n)) [7, 6, 5, 4, 3, 2, 1, 0]"

definition pad :: "byte list \<Rightarrow> byte list" where
  "pad m = m @ [128] @ replicate ((119 - length m mod 64) mod 64) 0
             @ be64 (word_of_nat (8 * length m))"

fun be32 :: "byte list \<Rightarrow> w32 list" where
  "be32 (a # b # c # d # r) =
     (push_bit 24 (ucast a) OR push_bit 16 (ucast b) OR push_bit 8 (ucast c) OR ucast d) # be32 r"
| "be32 _ = []"

fun blocks :: "byte list \<Rightarrow> byte list list" where
  "blocks [] = []"
| "blocks (x # xs) = take 64 (x # xs) # blocks (drop 64 (x # xs))"

definition hex32 :: "w32 \<Rightarrow> string" where
  "hex32 w = map (\<lambda>i. hexdigit (unat (drop_bit (4 * i) w AND 15))) [7, 6, 5, 4, 3, 2, 1, 0]"

text \<open>
  SHA-256. The message schedule is kept as a window of sixteen words: the head is the
  word of the current round, and each round appends the next word of the schedule.
\<close>

definition K256 :: "w32 list" where
  "K256 =
    [1116352408, 1899447441, 3049323471, 3921009573, 961987163, 1508970993, 2453635748,
     2870763221, 3624381080, 310598401, 607225278, 1426881987, 1925078388, 2162078206,
     2614888103, 3248222580, 3835390401, 4022224774, 264347078, 604807628, 770255983,
     1249150122, 1555081692, 1996064986, 2554220882, 2821834349, 2952996808, 3210313671,
     3336571891, 3584528711, 113926993, 338241895, 666307205, 773529912, 1294757372,
     1396182291, 1695183700, 1986661051, 2177026350, 2456956037, 2730485921, 2820302411,
     3259730800, 3345764771, 3516065817, 3600352804, 4094571909, 275423344, 430227734,
     506948616, 659060556, 883997877, 958139571, 1322822218, 1537002063, 1747873779,
     1955562222, 2024104815, 2227730452, 2361852424, 2428436474, 2756734187, 3204031479,
     3329325298]"

type_synonym st256 = "w32 \<times> w32 \<times> w32 \<times> w32 \<times> w32 \<times> w32 \<times> w32 \<times> w32"

definition H256 :: st256 where
  "H256 = (1779033703, 3144134277, 1013904242, 2773480762,
           1359893119, 2600822924, 528734635, 1541459225)"

definition next_w256 :: "w32 list \<Rightarrow> w32 list" where
  "next_w256 w =
     tl w @ [(let x = w ! 14 in rotr 17 x XOR rotr 19 x XOR drop_bit 10 x) + w ! 9
             + (let x = w ! 1 in rotr 7 x XOR rotr 18 x XOR drop_bit 3 x) + w ! 0]"

fun round256 :: "st256 \<Rightarrow> w32 \<Rightarrow> w32 \<Rightarrow> st256" where
  "round256 (a, b, c, d, e, f, g, h) k w =
     (let t1 = h + (rotr 6 e XOR rotr 11 e XOR rotr 25 e) + ((e AND f) XOR (NOT e AND g)) + k + w;
          t2 = (rotr 2 a XOR rotr 13 a XOR rotr 22 a) + ((a AND b) XOR (a AND c) XOR (b AND c))
      in (t1 + t2, a, b, c, d + t1, e, f, g))"

fun rounds256 :: "w32 list \<Rightarrow> w32 list \<Rightarrow> st256 \<Rightarrow> st256" where
  "rounds256 [] w s = s"
| "rounds256 (k # ks) w s = rounds256 ks (next_w256 w) (round256 s k (w ! 0))"

fun add256 :: "st256 \<Rightarrow> st256 \<Rightarrow> st256" where
  "add256 (a, b, c, d, e, f, g, h) (a', b', c', d', e', f', g', h') =
     (a + a', b + b', c + c', d + d', e + e', f + f', g + g', h + h')"

definition compress256 :: "st256 \<Rightarrow> byte list \<Rightarrow> st256" where
  "compress256 s blk = add256 s (rounds256 K256 (be32 blk) s)"

definition sha256 :: "byte list \<Rightarrow> st256" where
  "sha256 m = foldl compress256 H256 (blocks (pad m))"

fun hex256 :: "st256 \<Rightarrow> string" where
  "hex256 (a, b, c, d, e, f, g, h) =
     hex32 a @ hex32 b @ hex32 c @ hex32 d @ hex32 e @ hex32 f @ hex32 g @ hex32 h"

definition sha256_hexdigest :: "byte list \<Rightarrow> string" where
  "sha256_hexdigest m = hex256 (sha256 m)"

text \<open>SHA-1: eighty rounds in four stages of twenty.\<close>

type_synonym st160 = "w32 \<times> w32 \<times> w32 \<times> w32 \<times> w32"

definition H160 :: st160 where
  "H160 = (1732584193, 4023233417, 2562383102, 271733878, 3285377520)"

definition stages160 :: "nat list" where
  "stages160 = replicate 20 0 @ replicate 20 1 @ replicate 20 2 @ replicate 20 3"

definition K160 :: "nat \<Rightarrow> w32" where
  "K160 stage =
     (if stage = 0 then 1518500249 else if stage = 1 then 1859775393
      else if stage = 2 then 2400959708 else 3395469782)"

definition f160 :: "nat \<Rightarrow> w32 \<Rightarrow> w32 \<Rightarrow> w32 \<Rightarrow> w32" where
  "f160 stage b c d =
     (if stage = 0 then (b AND c) OR (NOT b AND d)
      else if stage = 2 then (b AND c) OR (b AND d) OR (c AND d)
      else b XOR c XOR d)"

definition next_w160 :: "w32 list \<Rightarrow> w32 list" where
  "next_w160 w = tl w @ [rotl 1 (w ! 13 XOR w ! 8 XOR w ! 2 XOR w ! 0)]"

fun round160 :: "st160 \<Rightarrow> nat \<Rightarrow> w32 \<Rightarrow> st160" where
  "round160 (a, b, c, d, e) stage w =
     (rotl 5 a + f160 stage b c d + e + K160 stage + w, a, rotl 30 b, c, d)"

fun rounds160 :: "nat list \<Rightarrow> w32 list \<Rightarrow> st160 \<Rightarrow> st160" where
  "rounds160 [] w s = s"
| "rounds160 (stage # r) w s = rounds160 r (next_w160 w) (round160 s stage (w ! 0))"

fun add160 :: "st160 \<Rightarrow> st160 \<Rightarrow> st160" where
  "add160 (a, b, c, d, e) (a', b', c', d', e') = (a + a', b + b', c + c', d + d', e + e')"

definition compress160 :: "st160 \<Rightarrow> byte list \<Rightarrow> st160" where
  "compress160 s blk = add160 s (rounds160 stages160 (be32 blk) s)"

definition sha1 :: "byte list \<Rightarrow> st160" where
  "sha1 m = foldl compress160 H160 (blocks (pad m))"

fun hex160 :: "st160 \<Rightarrow> string" where
  "hex160 (a, b, c, d, e) = hex32 a @ hex32 b @ hex32 c @ hex32 d @ hex32 e"

definition sha1_hexdigest :: "byte list \<Rightarrow> string" where
  "sha1_hexdigest m = hex160 (sha1 m)"

text \<open>\<^verbatim>\<open>meta_identifier\<close> (line 169).\<close>

definition meta_identifier :: "'f host \<Rightarrow> AnyMeta \<Rightarrow> error + string" where
  "meta_identifier h md =
     and_then (model_dump_json h md) (\<lambda>json.
       let meta_encoded = encode_utf8 json;
           meta_code = sha256_hexdigest meta_encoded;
           meta_subcode = sha1_hexdigest meta_encoded
       in Inr (meta_code @ '':'' @ meta_subcode))"

subsection \<open>The store facade (db.py, lines 14-103)\<close>

text \<open>
  The engine behind \<^verbatim>\<open>self.api\<close>: the names of its collections, the answer it gives to
  a query (beyond this program's reach, so any function), and the log of the calls made
  on it, oldest first.
\<close>

record 'f query_result =
  documents :: "string list list"
  metadatas :: "'f pydict list list"

datatype 'f call =
    CreateCollection string
  | ListCollections
  | GetCollection string
  | Query string string int
  | Add string "string list" "'f pydict list" "string list"

record 'f api =
  collection_names :: "string list"
  answer :: "string \<Rightarrow> string \<Rightarrow> int \<Rightarrow> 'f query_result"
  calls :: "'f call list"

definition called :: "'f call \<Rightarrow> 'f api \<Rightarrow> 'f api" where
  "called c a = a\<lparr>calls := calls a @ [c]\<rparr>"

text \<open>A call that changes what the engine stores, or that queries it.\<close>

fun mutation_or_query :: "'f call \<Rightarrow> bool" where
  "mutation_or_query (CreateCollection _) = True"
| "mutation_or_query ListCollections = False"
| "mutation_or_query (GetCollection _) = False"
| "mutation_or_query (Query _ _ _) = True"
| "mutation_or_query (Add _ _ _ _) = True"

text \<open>\<^verbatim>\<open>has_collection\<close> (line 63).\<close>

definition has_collection :: "'f api \<Rightarrow> string \<Rightarrow> bool \<times> 'f api" where
  "has_collection a name' = (name' \<in> set (collection_names a), called ListCollections a)"

text \<open>
  An argument of type \<^verbatim>\<open>Iterable\<close>: a sequence can be walked again and again, an
  iterator (a generator, a \<^verbatim>\<open>map\<close> object, ...) gives its elements once.
\<close>

datatype 'a iterable = Sequence "'a list" | Iterator "'a list"

fun iterate :: "'a iterable \<Rightarrow> 'a list \<times> 'a iterable" where
  "iterate (Sequence xs) = (xs, Sequence xs)"
| "iterate (Iterator xs) = (xs, Iterator [])"

text \<open>\<^verbatim>\<open>xs[0]\<close>.\<close>

fun first :: "'a list \<Rightarrow> error + 'a" where
  "first [] = Inl IndexError"
| "first (x # _) = Inr x"

text \<open>A list comprehension whose body may raise: the first exception ends it.\<close>

fun comprehension :: "('a \<Rightarrow> error + 'b) \<Rightarrow> 'a list \<Rightarrow> error + 'b list" where
  "comprehension f [] = Inr []"
| "comprehension f (x # xs) =
     and_then (f x) (\<lambda>y. and_then (comprehension f xs) (\<lambda>ys. Inr (y # ys)))"

definition not_exist :: "string \<Rightarrow> error" where
  "not_exist collection_name = ValueError (''Collection '' @ collection_name @ '' does not exist.'')"

text \<open>
  \<^verbatim>\<open>search\<close> (line 68). \<^verbatim>\<open>get_collection\<close> cannot fail after \<^verbatim>\<open>has_collection\<close> has
  answered yes: the model's engine does not change between the two calls.
\<close>

definition search ::
    "'f host \<Rightarrow> 'f api \<Rightarrow> string \<Rightarrow> string \<Rightarrow> int \<Rightarrow> (error + Data list) \<times> 'f api" where
  "search h a collection_name descriptions limit =
     (case has_collection a collection_name of (found, a1) \<Rightarrow>
        if \<not> found then (Inl (not_exist collection_name), a1)
        else
          let a2 = called (GetCollection collection_name) a1;
              a3 = called (Query collection_name descriptions limit) a2;
              results = answer a collection_name descriptions limit
          in (and_then (first (metadatas results)) (\<lambda>ms.
              and_then (first (documents results)) (\<lambda>contents.
              comprehension
                (\<lambda>(metadata, c). and_then (Reconstruct h metadata)
                                    (\<lambda>m. Inr \<lparr>meta = m, content = c\<rparr>))
                (zip ms contents))), a3))"

text \<open>
  \<^verbatim>\<open>add\<close> (line 88). The three keyword arguments are evaluated from left to right, each
  by a comprehension of its own over \<^verbatim>\<open>items\<close>; an exception in one of them ends the
  call before the engine's \<^verbatim>\<open>add\<close> is reached. The items as the caller finds them
  afterwards are part of the result.
\<close>

definition add ::
    "'f host \<Rightarrow> 'f api \<Rightarrow> string \<Rightarrow> Data iterable \<Rightarrow> (error + unit) \<times> 'f api \<times> Data iterable" where
  "add h a collection_name items =
     (case has_collection a collection_name of (found, a1) \<Rightarrow>
        if \<not> found then (Inl (not_exist collection_name), a1, items)
        else
          let a2 = called (GetCollection collection_name) a1 in
          case iterate items of (vs1, items1) \<Rightarrow>
          case iterate items1 of (vs2, items2) \<Rightarrow>
          case comprehension (\<lambda>v. Flatten h (meta v)) vs2 of
            Inl e \<Rightarrow> (Inl e, a2, items2)
          | Inr flat \<Rightarrow>
              (case iterate items2 of (vs3, items3) \<Rightarrow>
               case comprehension (\<lambda>v. meta_identifier h (IsDataMeta (meta v))) vs3 of
                 Inl e \<Rightarrow> (Inl e, a2, items3)
               | Inr ids \<Rightarrow>
                   (Inr (),
                    called (Add collection_name (map content vs1) flat ids) a2,
                    items3)))"

subsection \<open>Concrete values\<close>

text \<open>\<^verbatim>\<open>NULL_ENTITY\<close> (line 132): \<^verbatim>\<open>strptime\<close> gives a naive date-time.\<close>

definition NULL_ENTITY :: EntityMeta where
  "NULL_ENTITY =
     \<lparr>created_datetime =
        \<lparr>year = 2000, month = 1, day = 1, hour = 0, minute = 0, second = 0, microsecond = 0,
         tzinfo = None\<rparr>,
      EntityMeta.type = ''undef'', name = Some ''null'', id = []\<rparr>"

text \<open>
  A host to evaluate the definitions on. Its local zone is a fixed offset of \<open>off\<close>
  seconds east of UTC and its \<^verbatim>\<open>time_t\<close> has 32 bits: a timestamp beyond it raises, in
  both directions. Within it a float holds every microsecond exactly, so a timestamp
  is held as its number of microseconds. The calendar arithmetic is the standard
  library's (\<^verbatim>\<open>_ymd2ord\<close>, \<^verbatim>\<open>_ord2ymd\<close>). The float is printed with the fewest digits
  that give it back, which for these timestamps are the digits of its microseconds.
  This host's pydantic takes a \<^verbatim>\<open>datetime\<close> object or, through \<open>validate_dt\<close>, a float
  for a date-time, and nothing else; its \<^verbatim>\<open>unflatten\<close> is never given a key with a
  bracket in what follows.
\<close>

definition is_leap :: "nat \<Rightarrow> bool" where
  "is_leap y = (y mod 4 = 0 \<and> (y mod 100 \<noteq> 0 \<or> y mod 400 = 0))"

definition days_before_year :: "nat \<Rightarrow> nat" where
  "days_before_year y = (let p = y - 1 in p * 365 + p div 4 - p div 100 + p div 400)"

definition days_in_month :: "bool \<Rightarrow> nat \<Rightarrow> nat" where
  "days_in_month leap m =
     [0, 31, 28, 31, 30, 31, 30, 31, 31, 30, 31, 30, 31] ! m + (if m = 2 \<and> leap then 1 else 0)"

definition days_before_month :: "bool \<Rightarrow> nat \<Rightarrow> nat" where
  "days_before_month leap m =
     [0, 0, 31, 59, 90, 120, 151, 181, 212, 243, 273, 304, 334] ! m
       + (if 2 < m \<and> leap then 1 else 0)"

definition ymd2ord :: "nat \<Rightarrow> nat \<Rightarrow> nat \<Rightarrow> nat" where
  "ymd2ord y m d = days_before_year y + days_before_month (is_leap y) m + d"

definition ord2ymd :: "nat \<Rightarrow> nat \<times> nat \<times> nat" where
  "ord2ymd ordinal =
     (let n0 = ordinal - 1;
          n400 = n0 div 146097; r400 = n0 mod 146097;
          n100 = r400 div 36524; r100 = r400 mod 36524;
          n4 = r100 div 1461; r4 = r100 mod 1461;
          n1 = r4 div 365; n = r4 mod 365;
          y = n400 * 400 + 1 + n100 * 100 + n4 * 4 + n1
      in if n1 = 4 \<or> n100 = 4 then (y - 1, 12, 31)
         else
           let leap = (n1 = 3 \<and> (n4 \<noteq> 24 \<or> n100 = 3));
               m = (n + 50) div 32;
               preceding = days_before_month leap m
           in if n < preceding
              then (y, m - 1, n + days_in_month leap (m - 1) - preceding + 1)
              else (y, m, n - preceding + 1))"

text \<open>The date-times a \<^verbatim>\<open>datetime\<close> object can hold.\<close>

definition valid_datetime :: "datetime \<Rightarrow> bool" where
  "valid_datetime dt =
     (1 \<le> year dt \<and> year dt \<le> 9999 \<and> 1 \<le> month dt \<and> month dt \<le> 12 \<and>
      1 \<le> day dt \<and> day dt \<le> days_in_month (is_leap (year dt)) (month dt) \<and>
      hour dt < 24 \<and> minute dt < 60 \<and> second dt < 60 \<and> microsecond dt < 1000000 \<and>
      (case tzinfo dt of None \<Rightarrow> True | Some s \<Rightarrow> - 86400 < s \<and> s < 86400))"

definition wall_us :: "datetime \<Rightarrow> int" where
  "wall_us dt =
     (((int (ymd2ord (year dt) (month dt) (day dt)) * 24 + int (hour dt)) * 60
        + int (minute dt)) * 60 + int (second dt)) * 1000000 + int (microsecond dt)"

definition epoch_us :: int where
  "epoch_us = 719163 * 86400000000"

definition of_wall_us :: "int \<Rightarrow> datetime" where
  "of_wall_us t =
     (case ord2ymd (nat (t div 86400000000)) of (y, m, d) \<Rightarrow>
        let r = t mod 86400000000 in
        \<lparr>year = y, month = m, day = d,
         hour = nat (r div 3600000000), minute = nat (r div 60000000 mod 60),
         second = nat (r div 1000000 mod 60), microsecond = nat (r mod 1000000),
         tzinfo = None\<rparr>)"

definition in_time_t :: "int \<Rightarrow> bool" where
  "in_time_t t = (- 2147483648000000 \<le> t \<and> t < 2147483648000000)"

fun decimal :: "nat \<Rightarrow> string" where
  "decimal n = (if n < 10 then [hexdigit n] else decimal (n div 10) @ [hexdigit (n mod 10)])"

declare decimal.simps [simp del]

definition fraction :: "nat \<Rightarrow> string" where
  "fraction f =
     (let ds = map (\<lambda>i. hexdigit (f div 10 ^ i mod 10)) [5, 4, 3, 2, 1, 0];
          s = rev (dropWhile (\<lambda>c. c = CHR ''0'') (rev ds))
      in if s = [] then ''0'' else s)"

definition float_repr_us :: "int \<Rightarrow> string" where
  "float_repr_us t =
     (if t < 0 then ''-'' else []) @ decimal (nat \<bar>t\<bar> div 1000000) @ ''.''
       @ fraction (nat \<bar>t\<bar> mod 1000000)"

definition fixed_offset_host :: "int \<Rightarrow> int host" where
  "fixed_offset_host off =
     \<lparr>timestamp =
        (\<lambda>dt. let t = wall_us dt - (case tzinfo dt of None \<Rightarrow> off | Some s \<Rightarrow> s) * 1000000
                        - epoch_us
              in if valid_datetime dt \<and> in_time_t t then Some t else None),
      localtime =
        (\<lambda>v. if in_time_t v then Inr (of_wall_us (v + off * 1000000 + epoch_us))
              else Inl OverflowError),
      float_repr = float_repr_us,
      lax_datetime = (\<lambda>v. None),
      unflatten_indexed = (\<lambda>items. Inl (ValueError ''index syntax''))\<rparr>"

text \<open>
  The entry of the specification's scenario: content owned by nobody yet, created by the
  agent "assistant", typed in by a user, on 17 May 2024 at 12:30:45.25 local time. With
  it a reply a minute later, from a document; the same entry with a date-time that
  carries a time zone, one hour east of UTC; and the same entry dated 1 January of the
  year 1.
\<close>

definition may17 :: datetime where
  "may17 = \<lparr>year = 2024, month = 5, day = 17, hour = 12, minute = 30, second = 45,
             microsecond = 250000, tzinfo = None\<rparr>"

definition assistant :: EntityMeta where
  "assistant = \<lparr>created_datetime = may17, EntityMeta.type = ''agent'',
                name = Some ''assistant'', id = ''a-1''\<rparr>"

definition example_meta :: DataMeta where
  "example_meta =
     \<lparr>created_datetime = may17, DataMeta.type = ''content'',
      owner = NULL_ENTITY, creator = assistant,
      source = \<lparr>created_datetime = may17, SourceMeta.type = ''user'',
                 ref = Some [], url = Some []\<rparr>\<rparr>"

definition reply_meta :: DataMeta where
  "reply_meta =
     \<lparr>created_datetime = may17\<lparr>minute := 31\<rparr>, DataMeta.type = ''data'',
      owner = assistant, creator = assistant,
      source = \<lparr>created_datetime = may17, SourceMeta.type = ''document'',
                 ref = Some ''notes.txt'', url = None\<rparr>\<rparr>"

definition aware_meta :: DataMeta where
  "aware_meta = example_meta\<lparr>created_datetime := may17\<lparr>tzinfo := Some 3600\<rparr>\<rparr>"

definition year_one :: datetime where
  "year_one = \<lparr>year = 1, month = 1, day = 1, hour = 0, minute = 0, second = 0,
                microsecond = 0, tzinfo = None\<rparr>"

definition ancient_meta :: DataMeta where
  "ancient_meta = example_meta\<lparr>created_datetime := year_one\<rparr>"

text \<open>The flat mappings of the first two entries, as an engine stores and returns them.\<close>

definition example_flat :: "int pydict" where
  "example_flat =
    [(''created_datetime'', PFloat 1715949045250000),
     (''type'', PStr ''content''),
     (''owner.created_datetime'', PFloat 946684800000000),
     (''owner.type'', PStr ''undef''),
     (''owner.name'', PStr ''null''),
     (''owner.id'', PStr []),
     (''creator.created_datetime'', PFloat 1715949045250000),
     (''creator.type'', PStr ''agent''),
     (''creator.name'', PStr ''assistant''),
     (''creator.id'', PStr ''a-1''),
     (''source.created_datetime'', PFloat 1715949045250000),
     (''source.type'', PStr ''user''),
     (''source.ref'', PStr []),
     (''source.url'', PStr [])]"

definition reply_flat :: "int pydict" where
  "reply_flat =
    [(''created_datetime'', PFloat 1715949105250000),
     (''type'', PStr ''data''),
     (''owner.created_datetime'', PFloat 1715949045250000),
     (''owner.type'', PStr ''agent''),
     (''owner.name'', PStr ''assistant''),
     (''owner.id'', PStr ''a-1''),
     (''creator.created_datetime'', PFloat 1715949045250000),
     (''creator.type'', PStr ''agent''),
     (''creator.name'', PStr ''assistant''),
     (''creator.id'', PStr ''a-1''),
     (''source.created_datetime'', PFloat 1715949045250000),
     (''source.type'', PStr ''document''),
     (''source.ref'', PStr ''notes.txt''),
     (''source.url'', PNone)]"

text \<open>
  An engine with the one collection "notes", which answers every query with two groups:
  the first holds the two entries above under the contents "hello world" and "a reply",
  in this order, the second holds the reply alone.
\<close>

definition example_api :: "int api" where
  "example_api =
     \<lparr>collection_names = [''notes''],
      answer = (\<lambda>c q k. \<lparr>documents = [[''hello world'', ''a reply''], [''elsewhere'']],
                           metadatas = [[example_flat, reply_flat], [reply_flat]]\<rparr>),
      calls = []\<rparr>"

text \<open>
  An engine whose collection "notes" holds an entry that another program stored, with
  metadata of its own.
\<close>

definition foreign_api :: "int api" where
  "foreign_api =
     \<lparr>collection_names = [''notes''],
      answer = (\<lambda>c q k. \<lparr>documents = [[''imported text'']],
                           metadatas = [[[(''origin'', PStr ''import'')]]]\<rparr>),
      calls = []\<rparr>"

section \<open>Theorems\<close>

subsection \<open>The flat codec\<close>

lemma and_then_Inr [simp]: "and_then (Inr x) f = f x"
  by (simp add: and_then_def)

lemma and_then_Inl [simp]: "and_then (Inl e) f = Inl e"
  by (simp add: and_then_def)

lemma collect_Inr [simp]: "collect r s = Inr p \<longleftrightarrow> r = Inr (fst p) \<and> s = Inr (snd p)"
  by (cases r; cases s; cases p) (auto simp: collect_def)

lemma collect_Inr_Inr [simp]: "collect (Inr x) (Inr y) = Inr (x, y)"
  by (simp add: collect_def)

lemma flatten_optional_str [simp]:
  "flatten ((k, optional_str s) # r) = (k, optional_str s) # flatten r"
  by (cases s) simp_all

lemma optional_str_field_optional_str [simp]:
  "optional_str_field (optional_str s) = Inr s"
  by (cases s) simp_all

lemma dump_dt_Some: "timestamp h d = Some t \<Longrightarrow> dump_dt h d = Inr (PFloat t)"
  by (simp add: dump_dt_def serialize_dt_def)

lemma dump_dt_None: "timestamp h d = None \<Longrightarrow> dump_dt h d = Inl PydanticSerializationError"
  by (simp add: dump_dt_def serialize_dt_def)

text \<open>The flat mapping of a record whose four timestamps are \<open>t1\<close>, ..., \<open>t4\<close>.\<close>

lemma Flatten_Some:
  assumes "timestamp h (created_datetime m) = Some t1"
    and "timestamp h (created_datetime (owner m)) = Some t2"
    and "timestamp h (created_datetime (creator m)) = Some t3"
    and "timestamp h (created_datetime (source m)) = Some t4"
  shows "Flatten h m =
    Inr [(''created_datetime'', PFloat t1),
     (''type'', PStr (DataMeta.type m)),
     (''owner.created_datetime'', PFloat t2),
     (''owner.type'', PStr (EntityMeta.type (owner m))),
     (''owner.name'', optional_str (name (owner m))),
     (''owner.id'', PStr (EntityMeta.id (owner m))),
     (''creator.created_datetime'', PFloat t3),
     (''creator.type'', PStr (EntityMeta.type (creator m))),
     (''creator.name'', optional_str (name (creator m))),
     (''creator.id'', PStr (EntityMeta.id (creator m))),
     (''source.created_datetime'', PFloat t4),
     (''source.type'', PStr (SourceMeta.type (source m))),
     (''source.ref'', optional_str (ref (source m))),
     (''source.url'', optional_str (url (source m)))]"
  using assms
  by (simp add: Flatten_def DataMeta_dump_def EntityMeta_dump_def SourceMeta_dump_def
      dump_dt_Some)

lemma Flatten_not_serialisable:
  "\<not> serialisable h m \<Longrightarrow> Flatten h m = Inl PydanticSerializationError"
  by (cases "timestamp h (created_datetime m)";
      cases "timestamp h (created_datetime (owner m))";
      cases "timestamp h (created_datetime (creator m))";
      cases "timestamp h (created_datetime (source m))")
    (simp_all add: serialisable_def Flatten_def DataMeta_dump_def EntityMeta_dump_def
      SourceMeta_dump_def dump_dt_Some dump_dt_None)

lemma serialisableE:
  assumes "serialisable h m"
  obtains t1 t2 t3 t4 where "timestamp h (created_datetime m) = Some t1"
    and "timestamp h (created_datetime (owner m)) = Some t2"
    and "timestamp h (created_datetime (creator m)) = Some t3"
    and "timestamp h (created_datetime (source m)) = Some t4"
  using assms by (auto simp: serialisable_def)

lemma Flatten_Inr_serialisable: "Flatten h m = Inr fm \<Longrightarrow> serialisable h m"
  using Flatten_not_serialisable [of h m] by (cases "serialisable h m") auto

text \<open>Reconstructing a flat mapping of that shape.\<close>

lemma datetime_field_PFloat [simp]:
  "datetime_field h (PFloat v) = Inr d \<longleftrightarrow> fromtimestamp h v = Inr d"
  by (cases "fromtimestamp h v") (simp_all add: datetime_field_def)

lemma datetime_field_PFloat_Inr:
  "fromtimestamp h v = Inr d \<Longrightarrow> datetime_field h (PFloat v) = Inr d"
  by simp

lemma unflatten_flat:
  "unflatten h
    [(''created_datetime'', v1), (''type'', v2),
     (''owner.created_datetime'', v3), (''owner.type'', v4), (''owner.name'', v5),
     (''owner.id'', v6),
     (''creator.created_datetime'', v7), (''creator.type'', v8), (''creator.name'', v9),
     (''creator.id'', v10),
     (''source.created_datetime'', v11), (''source.type'', v12), (''source.ref'', v13),
     (''source.url'', v14)]
   = Inr
    [(''created_datetime'', v1), (''type'', v2),
     (''owner'', PDict [(''created_datetime'', v3), (''type'', v4), (''name'', v5), (''id'', v6)]),
     (''creator'', PDict [(''created_datetime'', v7), (''type'', v8), (''name'', v9), (''id'', v10)]),
     (''source'', PDict [(''created_datetime'', v11), (''type'', v12), (''ref'', v13), (''url'', v14)])]"
  by (simp add: unflatten_def)

lemma EntityMeta_init_flat:
  "EntityMeta_init h
     [(''created_datetime'', PFloat t), (''type'', PStr ty), (''name'', optional_str n),
      (''id'', PStr i)] = Inr e
   \<longleftrightarrow> (\<exists>d. fromtimestamp h t = Inr d \<and>
          e = \<lparr>created_datetime = d, EntityMeta.type = ty, name = n, id = i\<rparr>)"
  by (cases "fromtimestamp h t")
    (auto simp: EntityMeta_init_def required_def with_default_def datetime_field_PFloat_Inr
      split: sum.split prod.split)

lemma SourceMeta_init_flat:
  "SourceMeta_init h
     [(''created_datetime'', PFloat t), (''type'', PStr ty), (''ref'', optional_str r),
      (''url'', optional_str u)] = Inr e
   \<longleftrightarrow> (\<exists>d. fromtimestamp h t = Inr d \<and>
          e = \<lparr>created_datetime = d, SourceMeta.type = ty, ref = r, url = u\<rparr>)"
  by (cases "fromtimestamp h t")
    (auto simp: SourceMeta_init_def required_def with_default_def datetime_field_PFloat_Inr
      split: sum.split prod.split)

lemma Reconstruct_flat:
  "Reconstruct h
    [(''created_datetime'', PFloat t1), (''type'', PStr ty),
     (''owner.created_datetime'', PFloat t2), (''owner.type'', PStr oty),
     (''owner.name'', optional_str on), (''owner.id'', PStr oi),
     (''creator.created_datetime'', PFloat t3), (''creator.type'', PStr cty),
     (''creator.name'', optional_str cn), (''creator.id'', PStr ci),
     (''source.created_datetime'', PFloat t4), (''source.type'', PStr sty),
     (''source.ref'', optional_str sr), (''source.url'', optional_str su)] = Inr m'
   \<longleftrightarrow> (\<exists>d1 d2 d3 d4.
          fromtimestamp h t1 = Inr d1 \<and> fromtimestamp h t2 = Inr d2 \<and>
          fromtimestamp h t3 = Inr d3 \<and> fromtimestamp h t4 = Inr d4 \<and>
          m' = \<lparr>created_datetime = d1, DataMeta.type = ty,
                owner = \<lparr>created_datetime = d2, EntityMeta.type = oty, name = on, id = oi\<rparr>,
                creator = \<lparr>created_datetime = d3, EntityMeta.type = cty, name = cn, id = ci\<rparr>,
                source = \<lparr>created_datetime = d4, SourceMeta.type = sty, ref = sr, url = su\<rparr>\<rparr>)"
    (is "?l \<longleftrightarrow> ?r")
proof
  assume ?r
  then obtain d1 d2 d3 d4 where d: "fromtimestamp h t1 = Inr d1" "fromtimestamp h t2 = Inr d2"
      "fromtimestamp h t3 = Inr d3" "fromtimestamp h t4 = Inr d4"
    and m': "m' = \<lparr>created_datetime = d1, DataMeta.type = ty,
                owner = \<lparr>created_datetime = d2, EntityMeta.type = oty, name = on, id = oi\<rparr>,
                creator = \<lparr>created_datetime = d3, EntityMeta.type = cty, name = cn, id = ci\<rparr>,
                source = \<lparr>created_datetime = d4, SourceMeta.type = sty, ref = sr, url = su\<rparr>\<rparr>"
    by blast
  have "EntityMeta_init h
     [(''created_datetime'', PFloat t2), (''type'', PStr oty), (''name'', optional_str on),
      (''id'', PStr oi)]
      = Inr \<lparr>created_datetime = d2, EntityMeta.type = oty, name = on, id = oi\<rparr>"
    and "EntityMeta_init h
     [(''created_datetime'', PFloat t3), (''type'', PStr cty), (''name'', optional_str cn),
      (''id'', PStr ci)]
      = Inr \<lparr>created_datetime = d3, EntityMeta.type = cty, name = cn, id = ci\<rparr>"
    and "SourceMeta_init h
     [(''created_datetime'', PFloat t4), (''type'', PStr sty), (''ref'', optional_str sr),
      (''url'', optional_str su)]
      = Inr \<lparr>created_datetime = d4, SourceMeta.type = sty, ref = sr, url = su\<rparr>"
    using d by (simp_all add: EntityMeta_init_flat SourceMeta_init_flat)
  with d(1) m' show ?l
    unfolding Reconstruct_def unflatten_flat
    by (simp add: DataMeta_init_def required_def datetime_field_PFloat_Inr)
next
  assume ?l
  then show ?r
    unfolding Reconstruct_def unflatten_flat
    by (auto simp: DataMeta_init_def required_def EntityMeta_init_flat SourceMeta_init_flat
        split: sum.splits prod.splits)
qed

lemma tzinfo_fromtimestamp: "fromtimestamp h v = Inr d \<Longrightarrow> tzinfo d = None"
  by (auto simp: fromtimestamp_def split: sum.splits)

lemma read_back_iff:
  "read_back h d \<longleftrightarrow> (\<exists>t. timestamp h d = Some t \<and> fromtimestamp h t = Inr d)"
  by (simp add: read_back_def split: option.split)

lemma DataMeta_rebuild:
  "m = \<lparr>created_datetime = d1, DataMeta.type = DataMeta.type m,
         owner = \<lparr>created_datetime = d2, EntityMeta.type = EntityMeta.type (owner m),
                   name = name (owner m), id = EntityMeta.id (owner m)\<rparr>,
         creator = \<lparr>created_datetime = d3, EntityMeta.type = EntityMeta.type (creator m),
                     name = name (creator m), id = EntityMeta.id (creator m)\<rparr>,
         source = \<lparr>created_datetime = d4, SourceMeta.type = SourceMeta.type (source m),
                    ref = ref (source m), url = url (source m)\<rparr>\<rparr>
   \<longleftrightarrow> d1 = created_datetime m \<and> d2 = created_datetime (owner m) \<and>
       d3 = created_datetime (creator m) \<and> d4 = created_datetime (source m)"
    (is "m = ?R \<longleftrightarrow> ?r")
proof
  assume e: "m = ?R"
  have "created_datetime m = created_datetime ?R"
    and "created_datetime (owner m) = created_datetime (owner ?R)"
    and "created_datetime (creator m) = created_datetime (creator ?R)"
    and "created_datetime (source m) = created_datetime (source ?R)"
    using e by (rule arg_cong)+
  then show ?r by simp
next
  assume ?r
  then show "m = ?R" by simp
qed

text \<open>What the round trip of a record returns, when it returns.\<close>

lemma roundtrip_Inr_iff:
  "and_then (Flatten h m) (Reconstruct h) = Inr m' \<longleftrightarrow>
     (\<exists>t1 t2 t3 t4 d1 d2 d3 d4.
        timestamp h (created_datetime m) = Some t1 \<and>
        timestamp h (created_datetime (owner m)) = Some t2 \<and>
        timestamp h (created_datetime (creator m)) = Some t3 \<and>
        timestamp h (created_datetime (source m)) = Some t4 \<and>
        fromtimestamp h t1 = Inr d1 \<and> fromtimestamp h t2 = Inr d2 \<and>
        fromtimestamp h t3 = Inr d3 \<and> fromtimestamp h t4 = Inr d4 \<and>
        m' = \<lparr>created_datetime = d1, DataMeta.type = DataMeta.type m,
              owner = \<lparr>created_datetime = d2, EntityMeta.type = EntityMeta.type (owner m),
                        name = name (owner m), id = EntityMeta.id (owner m)\<rparr>,
              creator = \<lparr>created_datetime = d3, EntityMeta.type = EntityMeta.type (creator m),
                          name = name (creator m), id = EntityMeta.id (creator m)\<rparr>,
              source = \<lparr>created_datetime = d4, SourceMeta.type = SourceMeta.type (source m),
                         ref = ref (source m), url = url (source m)\<rparr>\<rparr>)"
proof (cases "serialisable h m")
  case False
  then have "Flatten h m = Inl PydanticSerializationError"
    by (rule Flatten_not_serialisable)
  moreover from False have "\<not> (\<exists>t1 t2 t3 t4.
        timestamp h (created_datetime m) = Some t1 \<and>
        timestamp h (created_datetime (owner m)) = Some t2 \<and>
        timestamp h (created_datetime (creator m)) = Some t3 \<and>
        timestamp h (created_datetime (source m)) = Some t4)"
    by (auto simp: serialisable_def)
  ultimately show ?thesis by auto
next
  case True
  then obtain t1 t2 t3 t4 where t: "timestamp h (created_datetime m) = Some t1"
      "timestamp h (created_datetime (owner m)) = Some t2"
      "timestamp h (created_datetime (creator m)) = Some t3"
      "timestamp h (created_datetime (source m)) = Some t4"
    by (rule serialisableE)
  show ?thesis
    unfolding Flatten_Some [OF t] and_then_Inr Reconstruct_flat
    by (simp add: t)
qed

text \<open>
  Claim C1, as amended. Flattening a \<^verbatim>\<open>DataMeta\<close> and reconstructing the flat mapping
  gives back the record itself exactly when the host reads each of its four date-times
  back to itself: \<^verbatim>\<open>dt.timestamp()\<close> returns a float and \<^verbatim>\<open>datetime.fromtimestamp\<close> of
  that float returns \<open>dt\<close>. A date-time that is read back is naive. Whenever the round
  trip returns a record at all, that record has the type of the one that went in, and
  its owner, creator and source up to their date-times, and its four date-times are
  naive. When \<^verbatim>\<open>timestamp()\<close> raises for one of the four date-times, flattening raises
  \<^verbatim>\<open>PydanticSerializationError\<close> and there is no round trip.
\<close>
theorem roundtrip_exactly_when_read_back:
  "(and_then (Flatten h m) (Reconstruct h) = Inr m \<longleftrightarrow>
      read_back h (created_datetime m) \<and>
      read_back h (created_datetime (owner m)) \<and>
      read_back h (created_datetime (creator m)) \<and>
      read_back h (created_datetime (source m))) \<and>
   (read_back h d \<longrightarrow> tzinfo d = None) \<and>
   (and_then (Flatten h m) (Reconstruct h) = Inr m' \<longrightarrow>
      DataMeta.type m' = DataMeta.type m \<and>
      (owner m')\<lparr>created_datetime := created_datetime (owner m)\<rparr> = owner m \<and>
      (creator m')\<lparr>created_datetime := created_datetime (creator m)\<rparr> = creator m \<and>
      (source m')\<lparr>created_datetime := created_datetime (source m)\<rparr> = source m \<and>
      tzinfo (created_datetime m') = None \<and>
      tzinfo (created_datetime (owner m')) = None \<and>
      tzinfo (created_datetime (creator m')) = None \<and>
      tzinfo (created_datetime (source m')) = None) \<and>
   (\<not> serialisable h m \<longrightarrow> Flatten h m = Inl PydanticSerializationError)"
proof -
  have 1: "and_then (Flatten h m) (Reconstruct h) = Inr m \<longleftrightarrow>
      read_back h (created_datetime m) \<and>
      read_back h (created_datetime (owner m)) \<and>
      read_back h (created_datetime (creator m)) \<and>
      read_back h (created_datetime (source m))"
    unfolding roundtrip_Inr_iff DataMeta_rebuild read_back_iff by blast
  have 2: "read_back h d \<longrightarrow> tzinfo d = None"
    by (auto simp: read_back_iff dest: tzinfo_fromtimestamp)
  have 3: "and_then (Flatten h m) (Reconstruct h) = Inr m' \<longrightarrow>
      DataMeta.type m' = DataMeta.type m \<and>
      (owner m')\<lparr>created_datetime := created_datetime (owner m)\<rparr> = owner m \<and>
      (creator m')\<lparr>created_datetime := created_datetime (creator m)\<rparr> = creator m \<and>
      (source m')\<lparr>created_datetime := created_datetime (source m)\<rparr> = source m \<and>
      tzinfo (created_datetime m') = None \<and>
      tzinfo (created_datetime (owner m')) = None \<and>
      tzinfo (created_datetime (creator m')) = None \<and>
      tzinfo (created_datetime (source m')) = None"
    unfolding roundtrip_Inr_iff by (auto dest: tzinfo_fromtimestamp)
  have 4: "\<not> serialisable h m \<longrightarrow> Flatten h m = Inl PydanticSerializationError"
    by (simp add: Flatten_not_serialisable)
  from 1 2 3 4 show ?thesis by blast
qed

subsection \<open>Evaluating the example host\<close>

lemmas calendar_defs =
  wall_us_def epoch_us_def ymd2ord_def days_before_year_def days_before_month_def
  days_in_month_def is_leap_def of_wall_us_def ord2ymd_def valid_datetime_def in_time_t_def

lemma timestamp_fixed:
  "timestamp (fixed_offset_host off) dt =
     (let t = wall_us dt - (case tzinfo dt of None \<Rightarrow> off | Some s \<Rightarrow> s) * 1000000 - epoch_us
      in if valid_datetime dt \<and> in_time_t t then Some t else None)"
  by (simp add: fixed_offset_host_def)

lemma fromtimestamp_fixed:
  "fromtimestamp (fixed_offset_host off) v =
     (if in_time_t v then Inr (of_wall_us (v + off * 1000000 + epoch_us)) else Inl OverflowError)"
  by (simp add: fromtimestamp_def fixed_offset_host_def of_wall_us_def Let_def split: prod.split)

lemma timestamp_may17: "timestamp (fixed_offset_host 0) may17 = Some 1715949045250000"
  by (simp add: timestamp_fixed may17_def calendar_defs Let_def)

lemma fromtimestamp_may17: "fromtimestamp (fixed_offset_host 0) 1715949045250000 = Inr may17"
  by (simp add: fromtimestamp_fixed may17_def calendar_defs Let_def)

lemma timestamp_null:
  "timestamp (fixed_offset_host 0) (created_datetime NULL_ENTITY) = Some 946684800000000"
  by (simp add: timestamp_fixed NULL_ENTITY_def calendar_defs Let_def)

lemma fromtimestamp_null:
  "fromtimestamp (fixed_offset_host 0) 946684800000000 = Inr (created_datetime NULL_ENTITY)"
  by (simp add: fromtimestamp_fixed NULL_ENTITY_def calendar_defs Let_def)

lemma timestamp_reply:
  "timestamp (fixed_offset_host 0) (may17\<lparr>minute := 31\<rparr>) = Some 1715949105250000"
  by (simp add: timestamp_fixed may17_def calendar_defs Let_def)

lemma fromtimestamp_reply:
  "fromtimestamp (fixed_offset_host 0) 1715949105250000 = Inr (may17\<lparr>minute := 31\<rparr>)"
  by (simp add: fromtimestamp_fixed may17_def calendar_defs Let_def)

lemma timestamp_aware:
  "timestamp (fixed_offset_host 0) (may17\<lparr>tzinfo := Some 3600\<rparr>) = Some 1715945445250000"
  by (simp add: timestamp_fixed may17_def calendar_defs Let_def)

lemma fromtimestamp_aware:
  "fromtimestamp (fixed_offset_host 0) 1715945445250000 = Inr (may17\<lparr>hour := 11\<rparr>)"
  by (simp add: fromtimestamp_fixed may17_def calendar_defs Let_def)

lemma timestamp_year_one: "timestamp (fixed_offset_host 0) year_one = None"
  by (simp add: timestamp_fixed year_one_def calendar_defs Let_def)

lemma read_back_may17: "read_back (fixed_offset_host 0) may17"
  by (simp add: read_back_def timestamp_may17 fromtimestamp_may17)

lemma read_back_null: "read_back (fixed_offset_host 0) (created_datetime NULL_ENTITY)"
  by (simp add: read_back_def timestamp_null fromtimestamp_null)

lemma read_back_reply: "read_back (fixed_offset_host 0) (may17\<lparr>minute := 31\<rparr>)"
  by (simp add: read_back_def timestamp_reply fromtimestamp_reply)

lemma Flatten_example: "Flatten (fixed_offset_host 0) example_meta = Inr example_flat"
proof -
  have "Flatten (fixed_offset_host 0) example_meta =
    Inr [(''created_datetime'', PFloat 1715949045250000),
     (''type'', PStr (DataMeta.type example_meta)),
     (''owner.created_datetime'', PFloat 946684800000000),
     (''owner.type'', PStr (EntityMeta.type (owner example_meta))),
     (''owner.name'', optional_str (name (owner example_meta))),
     (''owner.id'', PStr (EntityMeta.id (owner example_meta))),
     (''creator.created_datetime'', PFloat 1715949045250000),
     (''creator.type'', PStr (EntityMeta.type (creator example_meta))),
     (''creator.name'', optional_str (name (creator example_meta))),
     (''creator.id'', PStr (EntityMeta.id (creator example_meta))),
     (''source.created_datetime'', PFloat 1715949045250000),
     (''source.type'', PStr (SourceMeta.type (source example_meta))),
     (''source.ref'', optional_str (ref (source example_meta))),
     (''source.url'', optional_str (url (source example_meta)))]"
    by (rule Flatten_Some)
      (simp_all add: example_meta_def assistant_def timestamp_may17 timestamp_null)
  then show ?thesis
    by (simp add: example_meta_def assistant_def NULL_ENTITY_def example_flat_def)
qed

lemma Flatten_reply: "Flatten (fixed_offset_host 0) reply_meta = Inr reply_flat"
proof -
  have "Flatten (fixed_offset_host 0) reply_meta =
    Inr [(''created_datetime'', PFloat 1715949105250000),
     (''type'', PStr (DataMeta.type reply_meta)),
     (''owner.created_datetime'', PFloat 1715949045250000),
     (''owner.type'', PStr (EntityMeta.type (owner reply_meta))),
     (''owner.name'', optional_str (name (owner reply_meta))),
     (''owner.id'', PStr (EntityMeta.id (owner reply_meta))),
     (''creator.created_datetime'', PFloat 1715949045250000),
     (''creator.type'', PStr (EntityMeta.type (creator reply_meta))),
     (''creator.name'', optional_str (name (creator reply_meta))),
     (''creator.id'', PStr (EntityMeta.id (creator reply_meta))),
     (''source.created_datetime'', PFloat 1715949045250000),
     (''source.type'', PStr (SourceMeta.type (source reply_meta))),
     (''source.ref'', optional_str (ref (source reply_meta))),
     (''source.url'', optional_str (url (source reply_meta)))]"
    by (rule Flatten_Some)
      (simp_all add: reply_meta_def assistant_def timestamp_may17 timestamp_reply)
  then show ?thesis
    by (simp add: reply_meta_def assistant_def reply_flat_def)
qed

lemma roundtrip_if_read_back:
  "read_back h (created_datetime m) \<Longrightarrow> read_back h (created_datetime (owner m)) \<Longrightarrow>
   read_back h (created_datetime (creator m)) \<Longrightarrow> read_back h (created_datetime (source m)) \<Longrightarrow>
   and_then (Flatten h m) (Reconstruct h) = Inr m"
  unfolding roundtrip_Inr_iff DataMeta_rebuild read_back_iff by blast

lemma Reconstruct_example: "Reconstruct (fixed_offset_host 0) example_flat = Inr example_meta"
proof -
  have "and_then (Flatten (fixed_offset_host 0) example_meta) (Reconstruct (fixed_offset_host 0))
      = Inr example_meta"
    by (rule roundtrip_if_read_back)
      (simp_all add: example_meta_def assistant_def read_back_may17 read_back_null)
  then show ?thesis
    by (simp add: Flatten_example)
qed

lemma Reconstruct_reply: "Reconstruct (fixed_offset_host 0) reply_flat = Inr reply_meta"
proof -
  have "and_then (Flatten (fixed_offset_host 0) reply_meta) (Reconstruct (fixed_offset_host 0))
      = Inr reply_meta"
    by (rule roundtrip_if_read_back)
      (simp_all add: reply_meta_def assistant_def read_back_may17 read_back_reply)
  then show ?thesis
    by (simp add: Flatten_reply)
qed

lemma not_serialisable_ancient: "\<not> serialisable (fixed_offset_host 0) ancient_meta"
  by (simp add: serialisable_def ancient_meta_def timestamp_year_one)

text \<open>
  On a host in UTC the entry of the scenario, whose date-times are naive, is read back
  and comes back as it went in; the entry dated in the year 1, whose date-time has no
  timestamp there, is not flattened.
\<close>
theorem roundtrip_exactly_when_read_back_witness:
  "read_back (fixed_offset_host 0) (created_datetime example_meta) \<and>
   tzinfo (created_datetime example_meta) = None \<and>
   and_then (Flatten (fixed_offset_host 0) example_meta) (Reconstruct (fixed_offset_host 0))
     = Inr example_meta \<and>
   \<not> serialisable (fixed_offset_host 0) ancient_meta \<and>
   Flatten (fixed_offset_host 0) ancient_meta = Inl PydanticSerializationError"
proof -
  have r: "read_back (fixed_offset_host 0) (created_datetime example_meta)"
    "read_back (fixed_offset_host 0) (created_datetime (owner example_meta))"
    "read_back (fixed_offset_host 0) (created_datetime (creator example_meta))"
    "read_back (fixed_offset_host 0) (created_datetime (source example_meta))"
    by (simp_all add: example_meta_def assistant_def read_back_may17 read_back_null)
  from roundtrip_exactly_when_read_back
    [of "fixed_offset_host 0" example_meta "created_datetime example_meta"] r
  have "tzinfo (created_datetime example_meta) = None"
    and "and_then (Flatten (fixed_offset_host 0) example_meta) (Reconstruct (fixed_offset_host 0))
     = Inr example_meta"
    by blast+
  moreover from roundtrip_exactly_when_read_back [of "fixed_offset_host 0" ancient_meta]
    not_serialisable_ancient
  have "Flatten (fixed_offset_host 0) ancient_meta = Inl PydanticSerializationError"
    by blast
  ultimately show ?thesis
    using r(1) not_serialisable_ancient by (intro conjI)
qed

text \<open>
  Claim C1 as stated fails: the entry whose date-time is 12:30:45.25 at one hour east of
  UTC is a valid \<^verbatim>\<open>DataMeta\<close>, and on a host in UTC it comes back with the naive
  date-time 11:30:45.25.
\<close>
theorem roundtrip_counterexample:
  "and_then (Flatten (fixed_offset_host 0) aware_meta) (Reconstruct (fixed_offset_host 0))
     = Inr (example_meta\<lparr>created_datetime := may17\<lparr>hour := 11\<rparr>\<rparr>) \<and>
   and_then (Flatten (fixed_offset_host 0) aware_meta) (Reconstruct (fixed_offset_host 0))
     \<noteq> Inr aware_meta"
proof -
  have 1: "and_then (Flatten (fixed_offset_host 0) aware_meta) (Reconstruct (fixed_offset_host 0))
     = Inr (example_meta\<lparr>created_datetime := may17\<lparr>hour := 11\<rparr>\<rparr>)"
    unfolding roundtrip_Inr_iff
    by (simp add: aware_meta_def example_meta_def assistant_def timestamp_aware timestamp_may17
        timestamp_null fromtimestamp_aware fromtimestamp_may17 fromtimestamp_null)
  have 2: "example_meta\<lparr>created_datetime := may17\<lparr>hour := 11\<rparr>\<rparr> \<noteq> aware_meta"
  proof
    assume "example_meta\<lparr>created_datetime := may17\<lparr>hour := 11\<rparr>\<rparr> = aware_meta"
    then have "tzinfo (created_datetime (example_meta\<lparr>created_datetime := may17\<lparr>hour := 11\<rparr>\<rparr>))
        = tzinfo (created_datetime aware_meta)"
      by (rule arg_cong)
    then show False
      by (simp add: aware_meta_def may17_def)
  qed
  from 1 2 show ?thesis by simp
qed

text \<open>
  Claim C7. A flat mapping that flattening a \<^verbatim>\<open>DataMeta\<close> returns has exactly these
  fourteen keys, one for every scalar field of the record and of its owner, creator and
  source, each once and with the value of its field, a date-time as its timestamp. An
  optional field is there whatever it holds: the empty string of its default is the
  value \<open>PStr []\<close>.
\<close>
theorem flat_mapping_has_every_leaf:
  "Flatten h m = Inr fm \<Longrightarrow>
   (\<exists>t1 t2 t3 t4.
      timestamp h (created_datetime m) = Some t1 \<and>
      timestamp h (created_datetime (owner m)) = Some t2 \<and>
      timestamp h (created_datetime (creator m)) = Some t3 \<and>
      timestamp h (created_datetime (source m)) = Some t4 \<and>
      fm =
       [(''created_datetime'', PFloat t1),
        (''type'', PStr (DataMeta.type m)),
        (''owner.created_datetime'', PFloat t2),
        (''owner.type'', PStr (EntityMeta.type (owner m))),
        (''owner.name'', optional_str (name (owner m))),
        (''owner.id'', PStr (EntityMeta.id (owner m))),
        (''creator.created_datetime'', PFloat t3),
        (''creator.type'', PStr (EntityMeta.type (creator m))),
        (''creator.name'', optional_str (name (creator m))),
        (''creator.id'', PStr (EntityMeta.id (creator m))),
        (''source.created_datetime'', PFloat t4),
        (''source.type'', PStr (SourceMeta.type (source m))),
        (''source.ref'', optional_str (ref (source m))),
        (''source.url'', optional_str (url (source m)))]) \<and>
   map fst fm =
     [''created_datetime'', ''type'',
      ''owner.created_datetime'', ''owner.type'', ''owner.name'', ''owner.id'',
      ''creator.created_datetime'', ''creator.type'', ''creator.name'', ''creator.id'',
      ''source.created_datetime'', ''source.type'', ''source.ref'', ''source.url''] \<and>
   distinct (map fst fm) \<and>
   optional_str (Some []) = (PStr [] :: 'f pyval)"
proof -
  assume f: "Flatten h m = Inr fm"
  then have "serialisable h m"
    by (rule Flatten_Inr_serialisable)
  then obtain t1 t2 t3 t4 where t: "timestamp h (created_datetime m) = Some t1"
      "timestamp h (created_datetime (owner m)) = Some t2"
      "timestamp h (created_datetime (creator m)) = Some t3"
      "timestamp h (created_datetime (source m)) = Some t4"
    by (rule serialisableE)
  from f Flatten_Some [OF t] have fm: "fm =
       [(''created_datetime'', PFloat t1),
        (''type'', PStr (DataMeta.type m)),
        (''owner.created_datetime'', PFloat t2),
        (''owner.type'', PStr (EntityMeta.type (owner m))),
        (''owner.name'', optional_str (name (owner m))),
        (''owner.id'', PStr (EntityMeta.id (owner m))),
        (''creator.created_datetime'', PFloat t3),
        (''creator.type'', PStr (EntityMeta.type (creator m))),
        (''creator.name'', optional_str (name (creator m))),
        (''creator.id'', PStr (EntityMeta.id (creator m))),
        (''source.created_datetime'', PFloat t4),
        (''source.type'', PStr (SourceMeta.type (source m))),
        (''source.ref'', optional_str (ref (source m))),
        (''source.url'', optional_str (url (source m)))]"
    by simp
  then have "map fst fm =
     [''created_datetime'', ''type'',
      ''owner.created_datetime'', ''owner.type'', ''owner.name'', ''owner.id'',
      ''creator.created_datetime'', ''creator.type'', ''creator.name'', ''creator.id'',
      ''source.created_datetime'', ''source.type'', ''source.ref'', ''source.url'']"
    by simp
  moreover from this have "distinct (map fst fm)"
    by simp
  ultimately show ?thesis
    using t fm by simp
qed

text \<open>
  The flat mapping of the scenario's entry on a host in UTC: its source has the empty
  string for \<^verbatim>\<open>ref\<close>, and the key \<^verbatim>\<open>source.ref\<close> is there with the empty string.
\<close>
theorem flat_mapping_has_every_leaf_witness:
  "Flatten (fixed_offset_host 0) example_meta = Inr example_flat \<and>
   map fst example_flat =
     [''created_datetime'', ''type'',
      ''owner.created_datetime'', ''owner.type'', ''owner.name'', ''owner.id'',
      ''creator.created_datetime'', ''creator.type'', ''creator.name'', ''creator.id'',
      ''source.created_datetime'', ''source.type'', ''source.ref'', ''source.url''] \<and>
   ref (source example_meta) = Some [] \<and>
   map_of example_flat ''source.ref'' = Some (PStr [])"
proof -
  note f = Flatten_example
  from flat_mapping_has_every_leaf [OF f] have "map fst example_flat =
     [''created_datetime'', ''type'',
      ''owner.created_datetime'', ''owner.type'', ''owner.name'', ''owner.id'',
      ''creator.created_datetime'', ''creator.type'', ''creator.name'', ''creator.id'',
      ''source.created_datetime'', ''source.type'', ''source.ref'', ''source.url'']"
    by blast
  moreover have "ref (source example_meta) = Some []"
    by (simp add: example_meta_def)
  moreover have "map_of example_flat ''source.ref'' = Some (PStr [])"
    by (simp add: example_flat_def)
  ultimately show ?thesis
    using f by simp
qed

text \<open>
  Claim C2 fails on the code: the constructor takes \<^verbatim>\<open>type="robot"\<close>. The field is
  annotated \<^verbatim>\<open>str\<close>, and the list \<^verbatim>\<open>enum=["undef", "user", "agent"]\<close> that the same line
  of the source gives it is not checked.
\<close>
theorem EntityMeta_accepts_any_type:
  "EntityMeta_init h
     [(''created_datetime'', PDatetime d), (''type'', PStr ''robot''), (''id'', PStr i)]
   = Inr \<lparr>created_datetime = d, EntityMeta.type = ''robot'', name = Some [], id = i\<rparr>"
  by (simp add: EntityMeta_init_def required_def with_default_def datetime_field_def)

subsection \<open>The store facade\<close>

lemma comprehension_Inr_iff: "comprehension f xs = Inr ys \<longleftrightarrow> map f xs = map Inr ys"
proof (induction xs arbitrary: ys)
  case Nil
  then show ?case by auto
next
  case (Cons x xs)
  show ?case
  proof (cases "f x")
    case (Inl e)
    then show ?thesis by (cases ys) auto
  next
    case fx: (Inr y)
    show ?thesis
    proof (cases "comprehension f xs")
      case (Inl e)
      have "map f xs \<noteq> map Inr zs" for zs
        using Cons.IH [of zs] Inl by simp
      with fx Inl show ?thesis by (cases ys) auto
    next
      case (Inr zs)
      with Cons.IH [of zs] have "map f xs = map Inr zs" by simp
      with fx Inr show ?thesis
        by (cases ys) (auto simp: inj_map_eq_map [OF inj_Inr])
    qed
  qed
qed

lemma comprehension_cases:
  "(\<exists>ys. comprehension f xs = Inr ys) \<or> (\<exists>x \<in> set xs. \<exists>e. f x = Inl e \<and> comprehension f xs = Inl e)"
proof (induction xs)
  case Nil
  then show ?case by simp
next
  case (Cons x xs)
  then show ?case
    by (cases "f x"; cases "comprehension f xs") auto
qed








lemma add_Sequence:
  "c \<in> set (collection_names a) \<Longrightarrow>
   add h a c (Sequence vs) =
     (case comprehension (\<lambda>v. Flatten h (meta v)) vs of
        Inl e \<Rightarrow> (Inl e, a\<lparr>calls := calls a @ [ListCollections, GetCollection c]\<rparr>, Sequence vs)
      | Inr flat \<Rightarrow>
          (case comprehension (\<lambda>v. meta_identifier h (IsDataMeta (meta v))) vs of
             Inl e \<Rightarrow> (Inl e, a\<lparr>calls := calls a @ [ListCollections, GetCollection c]\<rparr>,
                        Sequence vs)
           | Inr ids \<Rightarrow>
               (Inr (), a\<lparr>calls := calls a @ [ListCollections, GetCollection c,
                                              Add c (map content vs) flat ids]\<rparr>,
                Sequence vs)))"
  by (cases "comprehension (\<lambda>v. Flatten h (meta v)) vs";
      cases "comprehension (\<lambda>v. meta_identifier h (IsDataMeta (meta v))) vs")
    (simp_all add: add_def has_collection_def called_def Let_def)

lemma add_Iterator:
  "c \<in> set (collection_names a) \<Longrightarrow>
   add h a c (Iterator vs) =
     (Inr (), a\<lparr>calls := calls a @ [ListCollections, GetCollection c,
                                    Add c (map content vs) [] []]\<rparr>, Iterator [])"
  by (simp add: add_def has_collection_def called_def)

lemma search_existing:
  "c \<in> set (collection_names a) \<Longrightarrow>
   search h a c q k =
     (and_then (first (metadatas (answer a c q k))) (\<lambda>ms.
      and_then (first (documents (answer a c q k))) (\<lambda>contents.
      comprehension
        (\<lambda>(metadata, c). and_then (Reconstruct h metadata) (\<lambda>m. Inr \<lparr>meta = m, content = c\<rparr>))
        (zip ms contents))),
      a\<lparr>calls := calls a @ [ListCollections, GetCollection c, Query c q k]\<rparr>)"
  by (simp add: search_def has_collection_def called_def Let_def)

lemma comprehension_all_succeed:
  "map (\<lambda>p. Reconstruct h (fst p)) (zip ms cs) = map Inr metas \<Longrightarrow>
   comprehension
     (\<lambda>(metadata, c). and_then (Reconstruct h metadata) (\<lambda>m. Inr \<lparr>meta = m, content = c\<rparr>))
     (zip ms cs)
   = Inr (map (\<lambda>(m, c). \<lparr>meta = m, content = c\<rparr>) (zip metas cs))"
proof (induction ms arbitrary: cs metas)
  case Nil
  then show ?case by simp
next
  case (Cons md ms)
  show ?case
  proof (cases cs)
    case Nil
    with Cons.prems show ?thesis by simp
  next
    case (Cons c cs')
    with Cons.prems obtain m metas' where
      metas: "metas = m # metas'" and
      m: "Reconstruct h md = Inr m" and
      rest: "map (\<lambda>p. Reconstruct h (fst p)) (zip ms cs') = map Inr metas'"
      by (cases metas) auto
    from Cons.IH [OF rest] m show ?thesis
      by (simp add: Cons metas)
  qed
qed

lemma and_then_Inr_iff: "and_then r f = Inr y \<longleftrightarrow> (\<exists>x. r = Inr x \<and> f x = Inr y)"
  by (cases r) simp_all

lemma and_then_Inl_iff: "and_then r f = Inl e \<longleftrightarrow> r = Inl e \<or> (\<exists>x. r = Inr x \<and> f x = Inl e)"
  by (cases r) simp_all

lemma paired_all_Inr:
  "map (\<lambda>(metadata, c). and_then (Reconstruct h metadata) (\<lambda>m. Inr \<lparr>meta = m, content = c\<rparr>)) zs
     = map Inr ys \<Longrightarrow>
   map (\<lambda>p. Reconstruct h (fst p)) zs = map Inr (map meta ys)"
proof (induction zs arbitrary: ys)
  case Nil
  then show ?case by simp
next
  case (Cons z zs)
  then obtain y ys' where ys: "ys = y # ys'"
    by (cases ys) auto
  obtain md c where z: "z = (md, c)"
    by (cases z)
  from Cons.prems ys z have
    hd: "and_then (Reconstruct h md) (\<lambda>m. Inr \<lparr>meta = m, content = c\<rparr>) = Inr y" and
    tl: "map (\<lambda>(metadata, c). and_then (Reconstruct h metadata)
            (\<lambda>m. Inr \<lparr>meta = m, content = c\<rparr>)) zs = map Inr ys'"
    by simp_all
  from hd have "Reconstruct h md = Inr (meta y)"
    by (auto simp: and_then_Inr_iff)
  with Cons.IH [OF tl] show ?case
    by (simp add: ys z)
qed

lemma comprehension_some_fail:
  assumes "\<not> (\<exists>metas. map (\<lambda>p. Reconstruct h (fst p)) (zip ms cs) = map Inr metas)"
  shows "\<exists>e. comprehension
           (\<lambda>(metadata, c). and_then (Reconstruct h metadata) (\<lambda>m. Inr \<lparr>meta = m, content = c\<rparr>))
           (zip ms cs) = Inl e \<and>
         (\<exists>p \<in> set (zip ms cs). Reconstruct h (fst p) = Inl e)"
proof -
  let ?g = "\<lambda>(metadata, c). and_then (Reconstruct h metadata) (\<lambda>m. Inr \<lparr>meta = m, content = c\<rparr>)"
  have "\<not> (\<exists>ys. comprehension ?g (zip ms cs) = Inr ys)"
  proof
    assume "\<exists>ys. comprehension ?g (zip ms cs) = Inr ys"
    then obtain ys where "map ?g (zip ms cs) = map Inr ys"
      by (auto simp: comprehension_Inr_iff)
    from paired_all_Inr [OF this] assms show False by blast
  qed
  with comprehension_cases [of ?g "zip ms cs"]
  obtain p e where p: "p \<in> set (zip ms cs)" and gp: "?g p = Inl e"
    and e: "comprehension ?g (zip ms cs) = Inl e"
    by blast
  from gp have "Reconstruct h (fst p) = Inl e"
    by (cases p) (auto simp: and_then_Inl_iff)
  with p e show ?thesis by blast
qed




text \<open>
  Claim C3. When the collection name is not among the engine's collections, \<^verbatim>\<open>add\<close> and
  \<^verbatim>\<open>search\<close> both raise the \<^verbatim>\<open>ValueError\<close> "Collection ... does not exist." (the
  specification's \<^verbatim>\<open>NotFoundError\<close>), the only call they have made on the engine is the
  listing of its collections, and the items are untouched.
\<close>
theorem missing_collection_fails_first:
  "c \<notin> set (collection_names a) \<Longrightarrow>
     add h a c items = (Inl (ValueError (''Collection '' @ c @ '' does not exist.'')),
                        a\<lparr>calls := calls a @ [ListCollections]\<rparr>, items) \<and>
     search h a c q k = (Inl (ValueError (''Collection '' @ c @ '' does not exist.'')),
                         a\<lparr>calls := calls a @ [ListCollections]\<rparr>) \<and>
     filter mutation_or_query (calls (fst (snd (add h a c items))))
       = filter mutation_or_query (calls a) \<and>
     filter mutation_or_query (calls (snd (search h a c q k)))
       = filter mutation_or_query (calls a)"
  by (simp add: add_def search_def has_collection_def called_def not_exist_def)

text \<open>The collection "drafts" on the engine that holds "notes" alone.\<close>
theorem missing_collection_fails_first_witness:
  "''drafts'' \<notin> set (collection_names example_api) \<and>
   add (fixed_offset_host 0) example_api ''drafts''
       (Sequence [\<lparr>meta = example_meta, content = ''hello world''\<rparr>])
     = (Inl (ValueError ''Collection drafts does not exist.''),
        example_api\<lparr>calls := [ListCollections]\<rparr>,
        Sequence [\<lparr>meta = example_meta, content = ''hello world''\<rparr>]) \<and>
   search (fixed_offset_host 0) example_api ''drafts'' ''hello'' 1
     = (Inl (ValueError ''Collection drafts does not exist.''),
        example_api\<lparr>calls := [ListCollections]\<rparr>)"
proof -
  have n: "''drafts'' \<notin> set (collection_names example_api)"
    by (simp add: example_api_def)
  have c: "calls example_api = []"
    by (simp add: example_api_def)
  from missing_collection_fails_first [OF n, of "fixed_offset_host 0"
      "Sequence [\<lparr>meta = example_meta, content = ''hello world''\<rparr>]" "''hello''" 1]
  show ?thesis
    using n by (simp add: c)
qed




text \<open>
  Claim C9, as amended. On an existing collection \<^verbatim>\<open>search\<close> lists the collections, gets
  the collection and queries it once, with \<^verbatim>\<open>n_results = limit\<close>, whatever happens next.
  It raises \<^verbatim>\<open>IndexError\<close> when the answer has no group of metadata or no group of
  documents. Otherwise it reads the first group of each and no other, and pairs them up
  to the length of the shorter. When every metadata so paired reconstructs, the result
  is one \<^verbatim>\<open>Data\<close> per pair, in the order of the answer; when one does not, \<^verbatim>\<open>search\<close>
  raises the error of one of them and returns nothing.
\<close>
theorem search_in_engine_order:
  "c \<in> set (collection_names a) \<Longrightarrow>
     snd (search h a c q k)
       = a\<lparr>calls := calls a @ [ListCollections, GetCollection c, Query c q k]\<rparr> \<and>
     (metadatas (answer a c q k) = [] \<or> documents (answer a c q k) = [] \<longrightarrow>
        fst (search h a c q k) = Inl IndexError) \<and>
     (\<forall>ms other_ms cs other_cs.
        metadatas (answer a c q k) = ms # other_ms \<and>
        documents (answer a c q k) = cs # other_cs \<longrightarrow>
          (\<forall>metas. map (\<lambda>p. Reconstruct h (fst p)) (zip ms cs) = map Inr metas \<longrightarrow>
             fst (search h a c q k)
               = Inr (map (\<lambda>(m, c). \<lparr>meta = m, content = c\<rparr>) (zip metas cs)) \<and>
             length (zip metas cs) = min (length ms) (length cs)) \<and>
          ((\<nexists>metas. map (\<lambda>p. Reconstruct h (fst p)) (zip ms cs) = map Inr metas) \<longrightarrow>
             (\<exists>e. fst (search h a c q k) = Inl e \<and>
                  (\<exists>p \<in> set (zip ms cs). Reconstruct h (fst p) = Inl e))))"
proof -
  assume c: "c \<in> set (collection_names a)"
  note s = search_existing [OF c, of h q k]
  from s have log: "snd (search h a c q k)
      = a\<lparr>calls := calls a @ [ListCollections, GetCollection c, Query c q k]\<rparr>"
    by simp
  have empty: "fst (search h a c q k) = Inl IndexError"
    if "metadatas (answer a c q k) = [] \<or> documents (answer a c q k) = []"
  proof (cases "metadatas (answer a c q k)")
    case Nil
    with s show ?thesis by simp
  next
    case (Cons ms other_ms)
    with that have "documents (answer a c q k) = []" by simp
    with s Cons show ?thesis by simp
  qed
  have group: "(\<forall>metas. map (\<lambda>p. Reconstruct h (fst p)) (zip ms cs) = map Inr metas \<longrightarrow>
             fst (search h a c q k)
               = Inr (map (\<lambda>(m, c). \<lparr>meta = m, content = c\<rparr>) (zip metas cs)) \<and>
             length (zip metas cs) = min (length ms) (length cs)) \<and>
          ((\<nexists>metas. map (\<lambda>p. Reconstruct h (fst p)) (zip ms cs) = map Inr metas) \<longrightarrow>
             (\<exists>e. fst (search h a c q k) = Inl e \<and>
                  (\<exists>p \<in> set (zip ms cs). Reconstruct h (fst p) = Inl e)))"
    if ms: "metadatas (answer a c q k) = ms # other_ms"
      and cs: "documents (answer a c q k) = cs # other_cs"
    for ms other_ms cs other_cs
  proof -
    from s ms cs have f: "fst (search h a c q k) =
        comprehension
          (\<lambda>(metadata, c). and_then (Reconstruct h metadata) (\<lambda>m. Inr \<lparr>meta = m, content = c\<rparr>))
          (zip ms cs)"
      by simp
    have "fst (search h a c q k)
               = Inr (map (\<lambda>(m, c). \<lparr>meta = m, content = c\<rparr>) (zip metas cs)) \<and>
             length (zip metas cs) = min (length ms) (length cs)"
      if ok: "map (\<lambda>p. Reconstruct h (fst p)) (zip ms cs) = map Inr metas" for metas
    proof -
      from ok have "length metas = min (length ms) (length cs)"
        using length_map [of "\<lambda>p. Reconstruct h (fst p)" "zip ms cs"] length_map [of Inr metas]
        by simp
      then have "length (zip metas cs) = min (length ms) (length cs)"
        by simp
      with f comprehension_all_succeed [OF ok] show ?thesis
        by simp
    qed
    moreover have "\<exists>e. fst (search h a c q k) = Inl e \<and>
                  (\<exists>p \<in> set (zip ms cs). Reconstruct h (fst p) = Inl e)"
      if "\<nexists>metas. map (\<lambda>p. Reconstruct h (fst p)) (zip ms cs) = map Inr metas"
      using comprehension_some_fail [OF that] f by simp
    ultimately show ?thesis by blast
  qed
  from log empty group show ?thesis by blast
qed

text \<open>
  The engine that answers with two groups, on a host in UTC: the result is the two
  entries of the first group in the order of the answer, and nothing of the second.
\<close>
theorem search_in_engine_order_witness:
  "''notes'' \<in> set (collection_names example_api) \<and>
   metadatas (answer example_api ''notes'' ''hello'' 2)
     = [example_flat, reply_flat] # [[reply_flat]] \<and>
   documents (answer example_api ''notes'' ''hello'' 2)
     = [''hello world'', ''a reply''] # [[''elsewhere'']] \<and>
   map (\<lambda>p. Reconstruct (fixed_offset_host 0) (fst p))
       (zip [example_flat, reply_flat] [''hello world'', ''a reply''])
     = map Inr [example_meta, reply_meta] \<and>
   search (fixed_offset_host 0) example_api ''notes'' ''hello'' 2 =
     (Inr [\<lparr>meta = example_meta, content = ''hello world''\<rparr>,
           \<lparr>meta = reply_meta, content = ''a reply''\<rparr>],
      example_api\<lparr>calls :=
        [ListCollections, GetCollection ''notes'', Query ''notes'' ''hello'' 2]\<rparr>)"
proof -
  have n: "''notes'' \<in> set (collection_names example_api)"
    by (simp add: example_api_def)
  have c: "calls example_api = []"
    by (simp add: example_api_def)
  have ms: "metadatas (answer example_api ''notes'' ''hello'' 2)
      = [example_flat, reply_flat] # [[reply_flat]]"
    by (simp add: example_api_def)
  have cs: "documents (answer example_api ''notes'' ''hello'' 2)
      = [''hello world'', ''a reply''] # [[''elsewhere'']]"
    by (simp add: example_api_def)
  have ok: "map (\<lambda>p. Reconstruct (fixed_offset_host 0) (fst p))
        (zip [example_flat, reply_flat] [''hello world'', ''a reply''])
      = map Inr [example_meta, reply_meta]"
    by (simp add: Reconstruct_example Reconstruct_reply)
  from search_in_engine_order [OF n, of "fixed_offset_host 0" "''hello''" 2] ms cs ok
  have "snd (search (fixed_offset_host 0) example_api ''notes'' ''hello'' 2)
      = example_api\<lparr>calls := calls example_api @
          [ListCollections, GetCollection ''notes'', Query ''notes'' ''hello'' 2]\<rparr>"
    and "fst (search (fixed_offset_host 0) example_api ''notes'' ''hello'' 2)
      = Inr (map (\<lambda>(m, c). \<lparr>meta = m, content = c\<rparr>)
               (zip [example_meta, reply_meta] [''hello world'', ''a reply'']))"
    by blast+
  then have "search (fixed_offset_host 0) example_api ''notes'' ''hello'' 2 =
     (Inr [\<lparr>meta = example_meta, content = ''hello world''\<rparr>,
           \<lparr>meta = reply_meta, content = ''a reply''\<rparr>],
      example_api\<lparr>calls :=
        [ListCollections, GetCollection ''notes'', Query ''notes'' ''hello'' 2]\<rparr>)"
    by (simp add: c prod_eq_iff)
  with n ms cs ok show ?thesis
    by (intro conjI)
qed

lemma Reconstruct_foreign:
  "Reconstruct (fixed_offset_host 0) [(''origin'', PStr ''import'')] = Inl ValidationError"
  by (simp add: Reconstruct_def unflatten_def DataMeta_init_def collect_def required_def)

text \<open>
  Claim C9 as stated fails: "notes" exists and the engine returns one pair, whose
  metadata is not the flat mapping of a \<^verbatim>\<open>DataMeta\<close>; \<^verbatim>\<open>search\<close> raises
  \<^verbatim>\<open>ValidationError\<close> and returns no \<^verbatim>\<open>Data\<close> for the pair.
\<close>
theorem search_in_engine_order_counterexample:
  "''notes'' \<in> set (collection_names foreign_api) \<and>
   search (fixed_offset_host 0) foreign_api ''notes'' ''imported'' 1 =
     (Inl ValidationError,
      foreign_api\<lparr>calls :=
        [ListCollections, GetCollection ''notes'', Query ''notes'' ''imported'' 1]\<rparr>)"
proof -
  have n: "''notes'' \<in> set (collection_names foreign_api)"
    by (simp add: foreign_api_def)
  have c: "calls foreign_api = []"
    by (simp add: foreign_api_def)
  have "answer foreign_api ''notes'' ''imported'' 1
      = \<lparr>documents = [[''imported text'']], metadatas = [[[(''origin'', PStr ''import'')]]]\<rparr>"
    by (simp add: foreign_api_def)
  with n show ?thesis
    by (simp add: search_existing [OF n] c Reconstruct_foreign)
qed

text \<open>
  Claim C10. \<^verbatim>\<open>add\<close> walks \<^verbatim>\<open>items\<close> three times. Given an iterator, the first walk
  takes every item: the documents are all there while the lists of metadata and of
  identifiers are empty, and the iterator is left exhausted. Given a sequence whose
  items all flatten and have an identifier, the three lists have the length of the
  sequence.
\<close>
theorem add_consumes_items_three_times:
  "c \<in> set (collection_names a) \<Longrightarrow>
     add h a c (Iterator vs) =
       (Inr (),
        a\<lparr>calls := calls a @
           [ListCollections, GetCollection c, Add c (map content vs) [] []]\<rparr>,
        Iterator []) \<and>
     (vs \<noteq> [] \<longrightarrow> map content vs \<noteq> []) \<and>
     (\<forall>flat ids.
        map (\<lambda>v. Flatten h (meta v)) vs = map Inr flat \<longrightarrow>
        map (\<lambda>v. meta_identifier h (IsDataMeta (meta v))) vs = map Inr ids \<longrightarrow>
          add h a c (Sequence vs) =
            (Inr (),
             a\<lparr>calls := calls a @
                [ListCollections, GetCollection c, Add c (map content vs) flat ids]\<rparr>,
             Sequence vs) \<and>
          length (map content vs) = length vs \<and>
          length flat = length vs \<and>
          length ids = length vs)"
proof -
  assume c: "c \<in> set (collection_names a)"
  have "add h a c (Sequence vs) =
            (Inr (),
             a\<lparr>calls := calls a @
                [ListCollections, GetCollection c, Add c (map content vs) flat ids]\<rparr>,
             Sequence vs) \<and>
          length (map content vs) = length vs \<and>
          length flat = length vs \<and>
          length ids = length vs"
    if mflat: "map (\<lambda>v. Flatten h (meta v)) vs = map Inr flat"
      and mids: "map (\<lambda>v. meta_identifier h (IsDataMeta (meta v))) vs = map Inr ids"
    for flat ids
  proof -
    from mflat have lflat: "length flat = length vs"
      using length_map [of "\<lambda>v. Flatten h (meta v)" vs] length_map [of Inr flat] by simp
    from mids have lids: "length ids = length vs"
      using length_map [of "\<lambda>v. meta_identifier h (IsDataMeta (meta v))" vs]
        length_map [of Inr ids] by simp
    from mflat mids have "comprehension (\<lambda>v. Flatten h (meta v)) vs = Inr flat"
      "comprehension (\<lambda>v. meta_identifier h (IsDataMeta (meta v))) vs = Inr ids"
      by (simp_all add: comprehension_Inr_iff)
    with lflat lids show ?thesis
      by (simp add: add_Sequence [OF c])
  qed
  with add_Iterator [OF c, of h vs] show ?thesis
    by simp
qed

text \<open>An iterator over the scenario's entry, added to "notes".\<close>
theorem add_consumes_items_three_times_witness:
  "''notes'' \<in> set (collection_names example_api) \<and>
   add (fixed_offset_host 0) example_api ''notes''
       (Iterator [\<lparr>meta = example_meta, content = ''hello world''\<rparr>])
     = (Inr (),
        example_api\<lparr>calls :=
          [ListCollections, GetCollection ''notes'', Add ''notes'' [''hello world''] [] []]\<rparr>,
        Iterator [])"
proof -
  have n: "''notes'' \<in> set (collection_names example_api)"
    by (simp add: example_api_def)
  have c: "calls example_api = []"
    by (simp add: example_api_def)
  from add_consumes_items_three_times [OF n, of "fixed_offset_host 0"
      "[\<lparr>meta = example_meta, content = ''hello world''\<rparr>]"]
  have "add (fixed_offset_host 0) example_api ''notes''
       (Iterator [\<lparr>meta = example_meta, content = ''hello world''\<rparr>])
     = (Inr (),
        example_api\<lparr>calls := calls example_api @
          [ListCollections, GetCollection ''notes'',
           Add ''notes'' (map content [\<lparr>meta = example_meta, content = ''hello world''\<rparr>]) [] []]\<rparr>,
        Iterator [])"
    by blast
  with n show ?thesis
    by (simp add: c)
qed

end
